theory Spec2Isabelle
  imports Complex_Main
begin

section \<open>JavaScript strings\<close>

text \<open>
  A JavaScript string is a sequence of UTF-16 code units. It is modelled as a \<open>string\<close>
  whose characters are the code units U+0000 to U+00FF (ASCII and Latin-1), so that
  \<open>length\<close> is the \<open>.length\<close> of the source. Strings with larger code units are outside
  the model. Text of the program itself that lies outside this range (emoji and bullets in
  the replies) is kept apart, as code points, in the type \<open>piece\<close> below.
\<close>

definition is_digit :: "char \<Rightarrow> bool" where
  \<comment> \<open>the class \<open>\d\<close>, which is \<open>[0-9]\<close>\<close>
  "is_digit c \<longleftrightarrow> c \<in> set ''0123456789''"

definition is_alpha :: "char \<Rightarrow> bool" where
  \<comment> \<open>the class \<open>[a-zA-Z]\<close>\<close>
  "is_alpha c \<longleftrightarrow> c \<in> set ''abcdefghijklmnopqrstuvwxyzABCDEFGHIJKLMNOPQRSTUVWXYZ''"

definition is_space :: "char \<Rightarrow> bool" where
  \<comment> \<open>the class \<open>\s\<close> and the characters \<open>trim\<close> removes: tab, line feed, vertical tab,
      form feed, carriage return, space and the no-break space U+00A0\<close>
  "is_space c \<longleftrightarrow> c \<in> {CHR 0x09, CHR 0x0A, CHR 0x0B, CHR 0x0C, CHR 0x0D, CHR 0x20, CHR 0xA0}"

definition is_line_terminator :: "char \<Rightarrow> bool" where
  \<comment> \<open>what \<open>.\<close> does not match\<close>
  "is_line_terminator c \<longleftrightarrow> c \<in> {CHR 0x0A, CHR 0x0D}"

definition upper_letters :: string where
  "upper_letters = ''ABCDEFGHIJKLMNOPQRSTUVWXYZ'' @
     [CHR 0xC0, CHR 0xC1, CHR 0xC2, CHR 0xC3, CHR 0xC4, CHR 0xC5, CHR 0xC6, CHR 0xC7,
      CHR 0xC8, CHR 0xC9, CHR 0xCA, CHR 0xCB, CHR 0xCC, CHR 0xCD, CHR 0xCE, CHR 0xCF,
      CHR 0xD0, CHR 0xD1, CHR 0xD2, CHR 0xD3, CHR 0xD4, CHR 0xD5, CHR 0xD6,
      CHR 0xD8, CHR 0xD9, CHR 0xDA, CHR 0xDB, CHR 0xDC, CHR 0xDD, CHR 0xDE]"

definition lower_letters :: string where
  "lower_letters = ''abcdefghijklmnopqrstuvwxyz'' @
     [CHR 0xE0, CHR 0xE1, CHR 0xE2, CHR 0xE3, CHR 0xE4, CHR 0xE5, CHR 0xE6, CHR 0xE7,
      CHR 0xE8, CHR 0xE9, CHR 0xEA, CHR 0xEB, CHR 0xEC, CHR 0xED, CHR 0xEE, CHR 0xEF,
      CHR 0xF0, CHR 0xF1, CHR 0xF2, CHR 0xF3, CHR 0xF4, CHR 0xF5, CHR 0xF6,
      CHR 0xF8, CHR 0xF9, CHR 0xFA, CHR 0xFB, CHR 0xFC, CHR 0xFD, CHR 0xFE]"

definition lower_char :: "char \<Rightarrow> char" where
  "lower_char c = (case map_of (zip upper_letters lower_letters) c of Some d \<Rightarrow> d | None \<Rightarrow> c)"

definition upper_char :: "char \<Rightarrow> string" where
  \<comment> \<open>U+00DF (sharp s) becomes two letters. The upper-case forms of U+00B5 and U+00FF
      are U+039C and U+0178, which this string type cannot hold: they are left as they are.\<close>
  "upper_char c =
     (if c = CHR 0xDF then ''SS''
      else (case map_of (zip lower_letters upper_letters) c of Some d \<Rightarrow> [d] | None \<Rightarrow> [c]))"

definition toLowerCase :: "string \<Rightarrow> string" where
  "toLowerCase s = map lower_char s"

definition toUpperCase :: "string \<Rightarrow> string" where
  "toUpperCase s = concat (map upper_char s)"

definition trim :: "string \<Rightarrow> string" where
  "trim s = rev (dropWhile is_space (rev (dropWhile is_space s)))"

definition startsWith :: "string \<Rightarrow> string \<Rightarrow> bool" where
  "startsWith s p \<longleftrightarrow> take (length p) s = p"

fun includes_str :: "string \<Rightarrow> string \<Rightarrow> bool" where
  \<comment> \<open>\<open>s.includes(p)\<close>\<close>
  "includes_str [] p = (p = [])"
| "includes_str (c # cs) p = (startsWith (c # cs) p \<or> includes_str cs p)"

fun split_on :: "char \<Rightarrow> string \<Rightarrow> string list" where
  \<comment> \<open>\<open>s.split(d)\<close> for a separator of one character; the empty string gives \<open>[""]\<close>\<close>
  "split_on d [] = [[]]"
| "split_on d (c # cs) =
     (if c = d then [] # split_on d cs
      else (case split_on d cs of [] \<Rightarrow> [[c]] | w # ws \<Rightarrow> (c # w) # ws))"

function split_spaces :: "string \<Rightarrow> string list" where
  \<comment> \<open>\<open>s.split(/\s+/)\<close>: every maximal run of white space is one separator\<close>
  "split_spaces [] = [[]]"
| "split_spaces (c # cs) =
     (if is_space c then [] # split_spaces (dropWhile is_space cs)
      else (case split_spaces cs of [] \<Rightarrow> [[c]] | w # ws \<Rightarrow> (c # w) # ws))"
  by pat_completeness auto
termination
  by (relation "measure length") (auto simp: less_Suc_eq_le length_dropWhile_le)

fun join :: "string \<Rightarrow> string list \<Rightarrow> string" where
  \<comment> \<open>\<open>ws.join(sep)\<close>\<close>
  "join sep [] = []"
| "join sep [w] = w"
| "join sep (w # v # ws) = w @ sep @ join sep (v # ws)"

definition capitalize :: "string \<Rightarrow> string" where
  \<comment> \<open>\<open>word.charAt(0).toUpperCase() + word.slice(1).toLowerCase()\<close>\<close>
  "capitalize w = toUpperCase (take 1 w) @ toLowerCase (drop 1 w)"

definition capitalize_first :: "string \<Rightarrow> string" where
  \<comment> \<open>\<open>word.charAt(0).toUpperCase() + word.slice(1)\<close>\<close>
  "capitalize_first w = toUpperCase (take 1 w) @ drop 1 w"

subsection \<open>Regular expressions\<close>

text \<open>
  A regular expression without \<open>^\<close> is tried at every position of the subject from left
  to right, and the first position where it matches wins: \<open>search m s\<close> does that for a
  matcher \<open>m\<close> that tries the expression at the start of its argument. All expressions of
  the program are applied to the lower-cased message, in which the flag \<open>i\<close> changes
  nothing.
\<close>

fun search :: "(string \<Rightarrow> 'a option) \<Rightarrow> string \<Rightarrow> 'a option" where
  "search m [] = m []"
| "search m (c # cs) = (case m (c # cs) of Some r \<Rightarrow> Some r | None \<Rightarrow> search m cs)"

definition phrase_rest :: "string \<Rightarrow> string \<Rightarrow> string option" where
  \<comment> \<open>\<open>p(.+)\<close> at the start of \<open>s\<close>: the group is the rest of the line, and is not empty\<close>
  "phrase_rest p s =
     (let r = takeWhile (\<lambda>c. \<not> is_line_terminator c) (drop (length p) s)
      in if startsWith s p \<and> r \<noteq> [] then Some r else None)"

definition word_digits :: "string \<Rightarrow> string \<Rightarrow> string option" where
  \<comment> \<open>\<open>p\s*(\d+)\<close> at the start of \<open>s\<close>\<close>
  "word_digits p s =
     (let d = takeWhile is_digit (dropWhile is_space (drop (length p) s))
      in if startsWith s p \<and> d \<noteq> [] then Some d else None)"

definition digits_word :: "string \<Rightarrow> string \<Rightarrow> string option" where
  \<comment> \<open>\<open>(\d+)\s*p\<close> at the start of \<open>s\<close>\<close>
  "digits_word p s =
     (let d = takeWhile is_digit s
      in if d \<noteq> [] \<and> startsWith (dropWhile is_space (dropWhile is_digit s)) p
         then Some d else None)"

definition want_need :: "(string \<Rightarrow> string option) \<Rightarrow> string \<Rightarrow> string option" where
  \<comment> \<open>\<open>i (want|need) G\<close> at the start of \<open>s\<close>, for a group \<open>G\<close> given by \<open>g\<close>\<close>
  "want_need g s =
     (if startsWith s ''i want '' \<or> startsWith s ''i need '' then g (drop 7 s) else None)"

definition some_digits :: "string \<Rightarrow> string option" where
  \<comment> \<open>\<open>(\d+)\<close> at the start of \<open>s\<close>\<close>
  "some_digits s = (let d = takeWhile is_digit s in if d \<noteq> [] then Some d else None)"

definition all_digits :: "string \<Rightarrow> bool" where
  \<comment> \<open>\<open>^\d+$\<close>\<close>
  "all_digits s \<longleftrightarrow> s \<noteq> [] \<and> list_all is_digit s"

definition plot_shape :: "string \<Rightarrow> unit option" where
  \<comment> \<open>\<open>(\d+x\d+|\d+\/\d+|\d+\s*acre)\<close> at the start of \<open>s\<close>\<close>
  "plot_shape s =
     (let d = takeWhile is_digit s; r = dropWhile is_digit s
      in if d \<noteq> [] \<and>
            ((startsWith r ''x'' \<and> some_digits (drop 1 r) \<noteq> None) \<or>
             (startsWith r ''/'' \<and> some_digits (drop 1 r) \<noteq> None) \<or>
             startsWith (dropWhile is_space r) ''acre'')
         then Some () else None)"

definition two_letters :: "string \<Rightarrow> unit option" where
  \<comment> \<open>\<open>[a-zA-Z]{2,}\<close> at the start of \<open>s\<close>\<close>
  "two_letters s = (if 2 \<le> length (takeWhile is_alpha s) then Some () else None)"

function name_shape :: "string \<Rightarrow> bool" where
  \<comment> \<open>\<open>^[a-zA-Z]{2,}(\s[a-zA-Z]{2,})*$\<close>\<close>
  "name_shape s =
     (2 \<le> length (takeWhile is_alpha s) \<and>
      (case dropWhile is_alpha s of [] \<Rightarrow> True | c # r \<Rightarrow> is_space c \<and> name_shape r))"
  by pat_completeness auto
termination
proof (relation "measure length")
  fix s :: string and c r
  assume "dropWhile is_alpha s = c # r"
  then have "Suc (length r) = length (dropWhile is_alpha s)" by simp
  also have "\<dots> \<le> length s" by (rule length_dropWhile_le)
  finally show "(r, s) \<in> measure length" by simp
qed simp

definition name_shape2 :: "string \<Rightarrow> bool" where
  \<comment> \<open>\<open>^[a-zA-Z]{2,}(\s[a-zA-Z]{2,})?$\<close>\<close>
  "name_shape2 s \<longleftrightarrow>
     2 \<le> length (takeWhile is_alpha s) \<and>
     (case dropWhile is_alpha s of [] \<Rightarrow> True
      | c # r \<Rightarrow> is_space c \<and> 2 \<le> length r \<and> list_all is_alpha r)"

definition is_amount_char :: "char \<Rightarrow> bool" where
  \<comment> \<open>the class \<open>[\d.,]\<close>\<close>
  "is_amount_char c \<longleftrightarrow> is_digit c \<or> c = CHR ''.'' \<or> c = CHR '',''"

definition budget_shape :: "string \<Rightarrow> bool" where
  \<comment> \<open>\<open>^[\d.,]+[MK]?$\<close>\<close>
  "budget_shape s \<longleftrightarrow>
     takeWhile is_amount_char s \<noteq> [] \<and> dropWhile is_amount_char s \<in> {[], ''M'', ''K''}"

definition budget_shape2 :: "string \<Rightarrow> bool" where
  \<comment> \<open>\<open>^\s*[\d.,]+[mMkK]?\s*$\<close>\<close>
  "budget_shape2 s \<longleftrightarrow>
     (let t = dropWhile is_space s
      in takeWhile is_amount_char t \<noteq> [] \<and>
         (case dropWhile is_amount_char t of [] \<Rightarrow> True
          | c # r \<Rightarrow> (if c \<in> set ''mMkK'' then list_all is_space r
                     else list_all is_space (c # r))))"

definition location_shape2 :: "string \<Rightarrow> bool" where
  \<comment> \<open>\<open>^[a-zA-Z\s]{3,}$\<close>\<close>
  "location_shape2 s \<longleftrightarrow> 3 \<le> length s \<and> list_all (\<lambda>c. is_alpha c \<or> is_space c) s"

definition spaced_digits :: "string \<Rightarrow> bool" where
  \<comment> \<open>\<open>^\s*\d+\s*$\<close>\<close>
  "spaced_digits s \<longleftrightarrow>
     (let t = dropWhile is_space s
      in takeWhile is_digit t \<noteq> [] \<and> list_all is_space (dropWhile is_digit t))"

definition property_digits :: "string \<Rightarrow> bool" where
  \<comment> \<open>\<open>^property\s*\d+$\<close>\<close>
  "property_digits s \<longleftrightarrow>
     startsWith s ''property'' \<and> all_digits (dropWhile is_space (drop 8 s))"

section \<open>Values and numbers\<close>

text \<open>
  A number is a double in the source. It is modelled by its exact value, a rational, or
  \<open>NaN\<close>: the rounding of IEEE arithmetic is not modelled, so the model agrees with the
  source wherever the arithmetic of the source is exact, which includes all integers below
  \<open>2^53\<close>.
\<close>

datatype jsnum = NaN | Fin rat

text \<open>
  The fields of the request body are JSON scalars, or absent (\<open>Undefined\<close>); fields holding
  arrays or objects are outside the model. \<open>NumStr n\<close> is the string that \<open>n.toString()\<close>
  returns, and \<open>Native\<close> names a built-in object that a property lookup can reach through
  the prototype of an object literal.
\<close>

datatype jsval =
    Undefined
  | Null
  | Bool bool
  | Num jsnum
  | Str string
  | NumStr jsnum
  | Native string

definition truthy :: "jsval \<Rightarrow> bool" where
  "truthy v =
     (case v of
        Undefined \<Rightarrow> False
      | Null \<Rightarrow> False
      | Bool b \<Rightarrow> b
      | Num n \<Rightarrow> (case n of NaN \<Rightarrow> False | Fin q \<Rightarrow> q \<noteq> 0)
      | Str s \<Rightarrow> s \<noteq> []
      | NumStr n \<Rightarrow> True
      | Native x \<Rightarrow> True)"

definition or_else :: "jsval \<Rightarrow> jsval \<Rightarrow> jsval" where
  \<comment> \<open>\<open>a || b\<close>\<close>
  "or_else a b = (if truthy a then a else b)"

definition digit_value :: "char \<Rightarrow> nat option" where
  "digit_value c =
     map_of (zip ''0123456789abcdefABCDEF''
       [0, 1, 2, 3, 4, 5, 6, 7, 8, 9, 10, 11, 12, 13, 14, 15, 10, 11, 12, 13, 14, 15]) c"

definition is_radix_digit :: "nat \<Rightarrow> char \<Rightarrow> bool" where
  "is_radix_digit radix c = (case digit_value c of Some v \<Rightarrow> v < radix | None \<Rightarrow> False)"

definition digits_value :: "nat \<Rightarrow> string \<Rightarrow> nat" where
  "digits_value radix d =
     foldl (\<lambda>a c. a * radix + (case digit_value c of Some v \<Rightarrow> v | None \<Rightarrow> 0)) 0 d"

definition parseInt :: "string \<Rightarrow> int option" where
  \<comment> \<open>\<open>parseInt(s)\<close> with no radix: leading white space, a sign, the prefix \<open>0x\<close>, then
      the longest run of digits; \<open>None\<close> is \<open>NaN\<close>\<close>
  "parseInt s =
     (let t = dropWhile is_space s;
          neg = startsWith t ''-'';
          u = (if startsWith t ''-'' \<or> startsWith t ''+'' then drop 1 t else t);
          hex = (startsWith u ''0x'' \<or> startsWith u ''0X'');
          radix = (if hex then 16 else 10);
          d = takeWhile (is_radix_digit radix) (if hex then drop 2 u else u)
      in if d = [] then None
         else Some (if neg then - int (digits_value radix d) else int (digits_value radix d)))"

definition parseFloat :: "string \<Rightarrow> jsnum" where
  \<comment> \<open>\<open>parseFloat(s)\<close> on the strings that reach it, which hold digits, dots and at most a
      final \<open>M\<close> or \<open>K\<close>: the longest prefix that is a decimal number\<close>
  "parseFloat s =
     (let ip = takeWhile is_digit s;
          r = dropWhile is_digit s;
          fp = (if startsWith r ''.'' then takeWhile is_digit (drop 1 r) else [])
      in if ip = [] \<and> fp = [] then NaN
         else Fin (of_nat (digits_value 10 ip) + of_nat (digits_value 10 fp) / 10 ^ length fp))"

definition num_times :: "jsnum \<Rightarrow> rat \<Rightarrow> jsnum" where
  "num_times n k = (case n of NaN \<Rightarrow> NaN | Fin q \<Rightarrow> Fin (q * k))"

fun show_nat :: "nat \<Rightarrow> string" where
  \<comment> \<open>the decimal digits of a natural number\<close>
  "show_nat n =
     (if n < 10 then [''0123456789'' ! n]
      else show_nat (n div 10) @ [''0123456789'' ! (n mod 10)])"

declare show_nat.simps [simp del]

section \<open>Reply texts\<close>

text \<open>
  A reply is a template literal of the source. It is kept as the list of its parts: text,
  an interpolated value \<open>${x}\<close> (whose conversion to a string is left to the reader of the
  reply), and a code point beyond U+00FF.
\<close>

datatype piece = T string | V jsval | U nat

definition apos :: string where
  "apos = [CHR 0x27]"

definition reply_followup_interested :: "piece list" where
  \<comment> \<open>line 40\<close>
  "reply_followup_interested =
     [T ''Great! '', U 0x1F389, T ''\<newline>\<newline>'',
      T ''Our agent will contact you shortly to discuss next steps!\<newline>\<newline>'',
      T ''Reply HI anytime to search for more properties.'']"

definition alert_hot_lead :: "jsval \<Rightarrow> jsval \<Rightarrow> jsval \<Rightarrow> piece list" where
  \<comment> \<open>line 42\<close>
  "alert_hot_lead leadName lastViewedProperty leadPhone =
     [U 0x1F525, T '' *HOT LEAD ALERT!*\<newline>\<newline>'', V leadName,
      T '' is INTERESTED after viewing!\<newline>\<newline>'', T ''Property: '',
      V lastViewedProperty, T ''\<newline>\<newline>'', U 0x1F4DE, T '' Contact them ASAP: '',
      V leadPhone, T ''\<newline>\<newline>'', T ''Strike while the iron is hot! '', U 0x1F3AF]"

definition reply_followup_not_interested :: "piece list" where
  \<comment> \<open>line 58\<close>
  "reply_followup_not_interested =
     [T ''Thank you for your feedback! '', U 0x1F64F, T ''\<newline>\<newline>'',
      T ''If you change your mind, just reply HI anytime.\<newline>\<newline>'', T ''We'',
      T apos, T ''re always here to help! '', U 0x1F3E1]"

definition reply_welcome_detected :: "jsval \<Rightarrow> jsval \<Rightarrow> piece list" where
  \<comment> \<open>line 151\<close>
  "reply_welcome_detected companyName detectedType =
     [T ''Hi! Welcome to '', V companyName, T '' '', U 0x1F44B, T ''\<newline>\<newline>'',
      T ''I see you'', T apos, T ''re interested in '', V detectedType,
      T ''. Great choice!\<newline>\<newline>'', T ''What'', T apos,
      T ''s your name?\<newline>\<newline>'',
      T ''(Just type your name, e.g., Peter or Mary Jane)'']"

definition reply_welcome :: "jsval \<Rightarrow> jsval \<Rightarrow> piece list \<Rightarrow> piece list" where
  \<comment> \<open>line 175\<close>
  "reply_welcome companyName botName options =
     [T ''Hi! Welcome to '', V companyName, T '' '', U 0x1F44B, T ''\<newline>\<newline>'',
      T ''I'', T apos, T ''m '', V botName,
      T '', your property assistant.\<newline>\<newline>'',
      T ''What are you looking for?\<newline>\<newline>''] @
     options @
     [T ''\<newline>\<newline>'', T ''Reply with the name or number (e.g., Buy or 1).'']"

definition reply_welcome_back :: "jsval \<Rightarrow> jsval \<Rightarrow> piece list \<Rightarrow> piece list" where
  \<comment> \<open>line 200\<close>
  "reply_welcome_back companyName botName options =
     [T ''Hi! Welcome back to '', V companyName, T '' '', U 0x1F44B,
      T ''\<newline>\<newline>'', T ''I'', T apos, T ''m '', V botName,
      T '', your property assistant.\<newline>\<newline>'',
      T ''What are you looking for?\<newline>\<newline>''] @
     options @
     [T ''\<newline>\<newline>'', T ''Reply with the name or number (e.g., Rent or 2).'']"

definition reply_choose_type :: "piece list \<Rightarrow> piece list" where
  \<comment> \<open>line 232\<close>
  "reply_choose_type options =
     [T ''Please choose from the options below:\<newline>\<newline>''] @
     options @
     [T ''\<newline>\<newline>'', T ''Reply with the name or number.'']"

definition reply_ask_name :: "piece list" where
  \<comment> \<open>line 246\<close>
  "reply_ask_name =
     [T ''Great choice! '', U 0x1F44D, T ''\<newline>\<newline>'', T ''What'', T apos,
      T ''s your name?\<newline>\<newline>'',
      T ''(Just type your name, e.g., Peter or Mary Jane)'']"

definition reply_name_invalid :: "piece list" where
  \<comment> \<open>line 276\<close>
  "reply_name_invalid =
     [T ''I didn'', T apos, T ''t quite catch that.\<newline>\<newline>'',
      T ''Please enter your name (e.g., John or Mary Jane).\<newline>\<newline>'',
      T ''Just your name is enough! '', U 0x1F60A]"

definition reply_ask_budget :: "jsval \<Rightarrow> piece list" where
  \<comment> \<open>line 297\<close>
  "reply_ask_budget name =
     [T ''Nice to meet you, '', V name, T ''! '', U 0x1F44B, T ''\<newline>\<newline>'',
      T ''What'', T apos, T ''s your budget?\<newline>\<newline>'', T ''Examples:\<newline>'',
      U 0x2022, T '' 500000\<newline>'', U 0x2022, T '' 5M \<newline>'', U 0x2022,
      T '' 500K \<newline>\<newline>'', T ''Just type the amount!'']"

definition reply_budget_invalid :: "piece list" where
  \<comment> \<open>line 333\<close>
  "reply_budget_invalid =
     [T ''I didn'', T apos, T ''t understand that budget.\<newline>\<newline>'',
      T ''Please enter a valid amount:\<newline>'', U 0x2022, T '' 5000000\<newline>'',
      U 0x2022, T '' 5M (5 million)\<newline>'', U 0x2022,
      T '' 500K (500 thousand)\<newline>\<newline>'', T ''Just the number is fine!'']"

definition reply_checking_areas :: "piece list" where
  \<comment> \<open>line 364\<close>
  "reply_checking_areas =
     [T ''Great! '', U 0x1F4B0, T ''\<newline>\<newline>'',
      T ''Let me check available areas... '', U 0x1F50D]"

definition reply_location_invalid :: "piece list" where
  \<comment> \<open>line 386\<close>
  "reply_location_invalid =
     [T ''Please choose a location from the list above.\<newline>\<newline>'',
      T ''Just type the area name (e.g., Westlands or Karen).'']"

definition reply_checking_location :: "jsval \<Rightarrow> piece list" where
  \<comment> \<open>line 409\<close>
  "reply_checking_location location =
     [T ''Perfect! '', U 0x1F4CD, T ''\<newline>\<newline>'', T ''Checking what'', T apos,
      T ''s available in '', V location, T ''... '', U 0x1F50D]"

definition reply_bedrooms_invalid :: "piece list" where
  \<comment> \<open>line 434\<close>
  "reply_bedrooms_invalid =
     [T ''Please enter the number of bedrooms you need.\<newline>\<newline>'',
      T ''Examples: 1, 2, 3, 4, etc.\<newline>\<newline>'', T ''Just the number!'']"

definition reply_searching :: "jsval \<Rightarrow> jsval \<Rightarrow> jsval \<Rightarrow> jsval \<Rightarrow> piece list" where
  \<comment> \<open>line 459\<close>
  "reply_searching finalInterest finalBudget finalLocation bedrooms =
     [U 0x2705, T '' Got it! Let me find the best matches for you...\<newline>\<newline>'',
      U 0x1F4CB, T '' Your preferences:\<newline>'', U 0x2022, T '' Interest: '',
      V finalInterest, T ''\<newline>'', U 0x2022, T '' Budget: KES '', V finalBudget,
      T ''\<newline>'', U 0x2022, T '' Location: '', V finalLocation, T ''\<newline>'',
      U 0x2022, T '' Bedrooms: '', V bedrooms, T ''\<newline>\<newline>'',
      T ''Searching properties... '', U 0x1F50D]"

definition reply_plot_invalid :: "piece list" where
  \<comment> \<open>line 489\<close>
  "reply_plot_invalid =
     [T ''Please enter the plot size you'', T apos,
      T ''re interested in.\<newline>\<newline>'', T ''Examples:\<newline>'', U 0x2022,
      T '' 50x100\<newline>'', U 0x2022, T '' 1/4 Acre\<newline>'', U 0x2022,
      T '' 1/8\<newline>\<newline>'', T ''Choose from the options above!'']"

definition reply_searching_land :: "jsval \<Rightarrow> jsval \<Rightarrow> jsval \<Rightarrow> jsval \<Rightarrow> piece list" where
  \<comment> \<open>line 516\<close>
  "reply_searching_land finalInterest finalBudget finalLocation plotSize =
     [U 0x2705,
      T '' Got it! Let me find the best land matches for you...\<newline>\<newline>'',
      U 0x1F4CB, T '' Your preferences:\<newline>'', U 0x2022, T '' Interest: '',
      V finalInterest, T ''\<newline>'', U 0x2022, T '' Budget: KES '', V finalBudget,
      T ''\<newline>'', U 0x2022, T '' Location: '', V finalLocation, T ''\<newline>'',
      U 0x2022, T '' Plot Size: '', V plotSize, T ''\<newline>\<newline>'',
      T ''Searching properties... '', U 0x1F50D]"

definition reply_property_invalid :: "piece list" where
  \<comment> \<open>line 546\<close>
  "reply_property_invalid =
     [T ''Please reply with the property number you want to view.\<newline>\<newline>'',
      T ''Example: Property1 or just 1'']"

definition reply_checking_availability :: "piece list" where
  \<comment> \<open>line 558\<close>
  "reply_checking_availability =
     [T ''Great choice! '', U 0x1F389, T ''\<newline>\<newline>'',
      T ''Let me check availability for you... '', U 0x23F3]"

definition reply_slot_invalid :: "piece list" where
  \<comment> \<open>line 580\<close>
  "reply_slot_invalid =
     [T ''Please reply with the slot number.\<newline>\<newline>'', T ''Example: 3 or Slot 3'']"

definition reply_creating_booking :: "piece list" where
  \<comment> \<open>line 593\<close>
  "reply_creating_booking =
     [T ''Creating your booking... '', U 0x2705]"

definition reply_cancelling :: "piece list" where
  \<comment> \<open>line 607\<close>
  "reply_cancelling =
     [T ''Cancelling your booking... '', U 0x23F3]"

definition help_type :: "piece list" where
  \<comment> \<open>line 621\<close>
  "help_type =
     [T ''Please choose from the options:\<newline>\<newline>'', T ''1'', U 0xFE0F, U 0x20E3,
      T '' Buy\<newline>'', T ''2'', U 0xFE0F, U 0x20E3, T '' Rent\<newline>'', T ''3'',
      U 0xFE0F, U 0x20E3, T '' Land\<newline>\<newline>'', T ''Reply with the name or number.'']"

definition help_name :: "piece list" where
  \<comment> \<open>line 630\<close>
  "help_name =
     [T ''Please enter your name.\<newline>\<newline>'',
      T ''Just your first name or full name (e.g., John or Mary Jane).'']"

definition help_budget :: "piece list" where
  \<comment> \<open>line 635\<close>
  "help_budget =
     [T ''Please enter your budget.\<newline>\<newline>'', T ''Examples:\<newline>'', U 0x2022,
      T '' 5000000\<newline>'', U 0x2022, T '' 5M (5 million)\<newline>'', U 0x2022,
      T '' 500K (500 thousand)'']"

definition help_location :: "piece list" where
  \<comment> \<open>line 643\<close>
  "help_location =
     [T ''Please choose a location from the list above.'']"

definition help_size :: "piece list" where
  \<comment> \<open>line 646\<close>
  "help_size =
     [T ''Please enter the number of bedrooms (e.g., 1, 2, 3).'']"

definition help_land_size :: "piece list" where
  \<comment> \<open>line 649\<close>
  "help_land_size =
     [T ''Please enter the plot size.\<newline>\<newline>'',
      T ''Examples: 50x100, 1/4 Acre, 1/8'']"

definition help_time_slot :: "piece list" where
  \<comment> \<open>line 654\<close>
  "help_time_slot =
     [T ''Please reply with the slot number (e.g., 1, 2, 3).'']"

definition help_booking_confirmed :: "piece list" where
  \<comment> \<open>line 657\<close>
  "help_booking_confirmed =
     [T ''Your viewing is confirmed! Reply CANCEL to cancel, or HI to start over.'']"

definition help_default :: "piece list" where
  \<comment> \<open>line 660\<close>
  "help_default =
     [T ''Hi! Send '', T apos, T ''HI'', T apos,
      T '' to start finding your perfect property! '', U 0x1F3E1]"

definition reply_error :: "piece list" where
  \<comment> \<open>line 668\<close>
  "reply_error =
     [T ''Oops! Something went wrong. Please try again or send HI to restart.'']"

definition reply_welcome2 :: "jsval \<Rightarrow> jsval \<Rightarrow> piece list \<Rightarrow> piece list" where
  \<comment> \<open>line 738\<close>
  "reply_welcome2 companyName botName options =
     [T ''Hi! Welcome to '', V companyName, T '' '', U 0x1F44B, T ''\<newline>\<newline>'',
      T ''I'', T apos, T ''m '', V botName,
      T '', your property assistant.\<newline>\<newline>'',
      T ''What are you looking for?\<newline>\<newline>''] @
     options @
     [T ''\<newline>\<newline>'', T ''Reply with your choice.'']"

definition reply_welcome_back2 :: "jsval \<Rightarrow> jsval \<Rightarrow> piece list \<Rightarrow> piece list" where
  \<comment> \<open>line 763\<close>
  "reply_welcome_back2 companyName botName options =
     [T ''Hi! Welcome back to '', V companyName, T '' '', U 0x1F44B,
      T ''\<newline>\<newline>'', T ''I'', T apos, T ''m '', V botName,
      T '', your property assistant.\<newline>\<newline>'',
      T ''What are you looking for?\<newline>\<newline>''] @
     options @
     [T ''\<newline>\<newline>'', T ''Reply with your choice.'']"

definition reply_choose_type2 :: "piece list" where
  \<comment> \<open>line 785\<close>
  "reply_choose_type2 =
     [T ''Please choose one of the listed options.'']"

definition reply_ask_name2 :: "piece list" where
  \<comment> \<open>line 797\<close>
  "reply_ask_name2 =
     [T ''Great choice! '', U 0x1F44D, T ''\<newline>\<newline>'', T ''What'', T apos,
      T ''s your name?'']"

definition reply_ask_budget2 :: "jsval \<Rightarrow> piece list" where
  \<comment> \<open>line 814\<close>
  "reply_ask_budget2 name =
     [T ''Nice to meet you, '', V name, T ''! '', U 0x1F44B, T ''\<newline>\<newline>'',
      T ''What'', T apos, T ''s your budget?\<newline>\<newline>'',
      T ''Example: 5000000 or 5M'']"

definition help_type2 :: "piece list" where
  \<comment> \<open>line 997\<close>
  "help_type2 =
     [T ''Please reply with one of the listed options.'']"

definition help_name2 :: "piece list" where
  \<comment> \<open>line 998\<close>
  "help_name2 =
     [T ''Please enter your name (letters only).'']"

definition help_budget2 :: "piece list" where
  \<comment> \<open>line 999\<close>
  "help_budget2 =
     [T ''Please enter a valid budget (e.g., 5000000 or 5M).'']"

definition help_location2 :: "piece list" where
  \<comment> \<open>line 1000\<close>
  "help_location2 =
     [T ''Please enter a location from the list above.'']"

definition help_land_size2 :: "piece list" where
  \<comment> \<open>line 1002\<close>
  "help_land_size2 =
     [T ''Please enter the plot size you are interested in (e.g., 50x100, 1/8 Acre).'']"

definition help_time_slot2 :: "piece list" where
  \<comment> \<open>line 1003\<close>
  "help_time_slot2 =
     [T ''Please reply with a slot number.'']"

definition help_default2 :: "piece list" where
  \<comment> \<open>line 1004\<close>
  "help_default2 =
     [T ''Hi! Send '', T apos, T ''hi'', T apos, T '' to start.'']"

definition reply_error2 :: "piece list" where
  \<comment> \<open>line 1012\<close>
  "reply_error2 =
     [T ''Oops! Something went wrong. Please try again later.'']"

section \<open>The request and the response\<close>

text \<open>The flat record \<open>input\<close> that \<open>handleMessage\<close> reads, one field per property.\<close>

record input =
  message :: jsval
  from' :: jsval
  lead_id :: jsval
  lead_stage :: jsval
  lead_interest :: jsval
  lead_budget :: jsval
  lead_location :: jsval
  lead_size :: jsval
  lead_name :: jsval
  awaiting_followup_response :: jsval
  last_viewed_property :: jsval
  tenant_whatsapp :: jsval
  tenant_bot_name :: jsval
  tenant_company_name :: jsval
  tenant_property_types :: jsval
  tenant_id :: jsval

text \<open>
  The source returns three shapes of object: the \<open>response\<close> object with all its keys,
  the two literals of the follow-up handler, and the literal of the \<open>catch\<close> block. One
  record holds them: \<open>extras\<close> are the ten keys that only the \<open>response\<close> object has,
  and a key that the returned object does not have is \<open>None\<close>. \<open>updateFields\<close> is the
  list of its keys and values in the order of the object literal.
\<close>

record extras =
  createLead :: bool
  searchProperties :: bool
  bookingRequest :: bool
  interest :: jsval
  bedrooms :: jsval
  requestedBedrooms :: jsval
  propertyNumber :: jsval
  location :: jsval
  selectedTime :: jsval
  plotSize :: jsval

record notification =
  note_message :: "piece list"
  sendTo :: jsval
  leadName :: jsval
  leadPhone :: jsval
  propertyName :: jsval

record response =
  action :: string
  updateFields :: "(string \<times> jsval) list option"
  replyMessage :: "piece list"
  extras :: "extras option"
  agentNotification :: "notification option"

definition extras0 :: extras where
  "extras0 =
     \<lparr>createLead = False, searchProperties = False, bookingRequest = False,
      interest = Str [], bedrooms = Num (Fin 0), requestedBedrooms = Num (Fin 0),
      propertyNumber = Num (Fin 0), location = Str [], selectedTime = Str [],
      plotSize = Str []\<rparr>"

definition reply :: "string \<Rightarrow> (string \<times> jsval) list \<Rightarrow> piece list \<Rightarrow> extras \<Rightarrow> response" where
  \<comment> \<open>the \<open>response\<close> object after its assignments\<close>
  "reply a fs m x =
     \<lparr>action = a, updateFields = Some fs, replyMessage = m, extras = Some x,
      agentNotification = None\<rparr>"

definition invalid :: "piece list \<Rightarrow> response" where
  \<comment> \<open>\<open>response.action = "invalid"; response.replyMessage = m; return response\<close>\<close>
  "invalid m = reply ''invalid'' [] m extras0"

datatype fault = TypeError

definition leadExists :: "input \<Rightarrow> bool" where
  \<comment> \<open>\<open>input.lead_id && input.lead_id.length > 0\<close>: a number or a boolean has no
      \<open>length\<close>, and \<open>undefined > 0\<close> is false\<close>
  "leadExists inp = (case lead_id inp of Str s \<Rightarrow> s \<noteq> [] | _ \<Rightarrow> False)"

definition stage_of :: "input \<Rightarrow> jsval" where
  \<comment> \<open>\<open>input.lead_stage || null\<close>\<close>
  "stage_of inp = or_else (lead_stage inp) Null"

definition tenantTypes :: "input \<Rightarrow> jsval" where
  "tenantTypes inp = or_else (tenant_property_types inp) (Str ''Buy, Rent'')"

definition botName :: "input \<Rightarrow> jsval" where
  "botName inp = or_else (tenant_bot_name inp) (Str ''PropertyBot'')"

definition companyName :: "input \<Rightarrow> jsval" where
  "companyName inp = or_else (tenant_company_name inp) (Str ''our company'')"

definition split_types :: "jsval \<Rightarrow> fault + string list" where
  \<comment> \<open>\<open>types.split(',')\<close>: only a string has the method\<close>
  "split_types v = (case v of Str s \<Rightarrow> Inr (split_on CHR '','' s) | _ \<Rightarrow> Inl TypeError)"

definition num_of_int :: "int \<Rightarrow> jsval" where
  "num_of_int k = Num (Fin (of_int k))"

definition stage_field :: string where
  "stage_field = ''Conversation Stage''"

section \<open>handleMessage, the variant with natural language and the follow-up handler\<close>

text \<open>Lines 3 to 671 of the source. Each definition is one block of the function.\<close>

fun option_lines :: "nat \<Rightarrow> string list \<Rightarrow> piece list" where
  \<comment> \<open>\<open>.map((t, index) => `${index + 1}<keycap> ${t.trim()}`).join('\n')\<close>, from \<open>index + 1 = i\<close>\<close>
  "option_lines i [] = []"
| "option_lines i [t] = [V (Num (Fin (of_nat i))), U 0xFE0F, U 0x20E3, T '' '', T (trim t)]"
| "option_lines i (t # u # ts) =
     [V (Num (Fin (of_nat i))), U 0xFE0F, U 0x20E3, T '' '', T (trim t), T ''\<newline>''] @
     option_lines (Suc i) (u # ts)"

definition formatOptions :: "jsval \<Rightarrow> fault + piece list" where
  "formatOptions types =
     (case split_types types of Inl e \<Rightarrow> Inl e | Inr ts \<Rightarrow> Inr (option_lines 1 ts))"

subsection \<open>Follow-up response handler\<close>

definition followup :: "input \<Rightarrow> string \<Rightarrow> response" where
  "followup inp msg =
     (let name = or_else (lead_name inp) (Str ''there'');
          phone = from' inp;
          tenantWhatsApp = or_else (tenant_whatsapp inp) (Str []);
          lastViewedProperty = or_else (last_viewed_property inp) (Str ''a property'')
      in if msg = ''1'' then
           \<lparr>action = ''followup_interested'',
            updateFields = Some
              [(''Status'', Str ''Hot Lead''),
               (stage_field, Str ''interested_after_viewing''),
               (''AwaitingFollowUpResponse'', Bool False)],
            replyMessage = reply_followup_interested,
            extras = None,
            agentNotification = Some
              \<lparr>note_message = alert_hot_lead name lastViewedProperty phone,
               sendTo = tenantWhatsApp, leadName = name, leadPhone = phone,
               propertyName = lastViewedProperty\<rparr>\<rparr>
         else
           \<lparr>action = ''followup_not_interested'',
            updateFields = Some
              [(''Status'', Str ''Not Interested''),
               (stage_field, Str ''not_interested_after_viewing''),
               (''AwaitingFollowUpResponse'', Bool False)],
            replyMessage = reply_followup_not_interested,
            extras = None,
            agentNotification = None\<rparr>)"

subsection \<open>New user\<close>

definition truthy_type :: "string option \<Rightarrow> bool" where
  \<comment> \<open>\<open>detectedType\<close> is \<open>null\<close> or \<open>undefined\<close> (\<open>None\<close>) or a string\<close>
  "truthy_type d = (case d of None \<Rightarrow> False | Some t \<Rightarrow> t \<noteq> [])"

definition detectType :: "string \<Rightarrow> string list \<Rightarrow> string option" where
  "detectType lowerMsg typesList =
     (let d0 = find (\<lambda>t. includes_str lowerMsg (toLowerCase t)) typesList;
          d1 = (if \<not> truthy_type d0 \<and>
                   (includes_str lowerMsg ''buy'' \<or> includes_str lowerMsg ''purchase'' \<or>
                    includes_str lowerMsg ''invest'')
                then find (\<lambda>t. includes_str (toLowerCase t) ''buy'') typesList else d0);
          d2 = (if \<not> truthy_type d1 \<and>
                   (includes_str lowerMsg ''rent'' \<or> includes_str lowerMsg ''lease'')
                then find (\<lambda>t. includes_str (toLowerCase t) ''rent'') typesList else d1);
          d3 = (if \<not> truthy_type d2 \<and>
                   (includes_str lowerMsg ''land'' \<or> includes_str lowerMsg ''plot'' \<or>
                    includes_str lowerMsg ''acre'')
                then find (\<lambda>t. includes_str (toLowerCase t) ''land'') typesList else d2)
      in d3)"

definition new_user :: "input \<Rightarrow> string \<Rightarrow> fault + response" where
  "new_user inp originalMessage =
     (case split_types (tenantTypes inp) of
        Inl e \<Rightarrow> Inl e
      | Inr ts \<Rightarrow>
          (case detectType (toLowerCase originalMessage) (map trim ts) of
             Some (c # cs) \<Rightarrow>
               Inr (reply ''create''
                 [(''Interest'', Str (c # cs)),
                  (stage_field, Str ''asked_name''),
                  (''Status'', Str ''New''),
                  (''Phone'', from' inp),
                  (''Tenant'', tenant_id inp)]
                 (reply_welcome_detected (companyName inp) (Str (c # cs)))
                 (extras0\<lparr>createLead := True, interest := Str (c # cs)\<rparr>))
           | _ \<Rightarrow>
               (case formatOptions (tenantTypes inp) of
                  Inl e \<Rightarrow> Inl e
                | Inr options \<Rightarrow>
                    Inr (reply ''create''
                      [(stage_field, Str ''asked_buy_or_rent''),
                       (''Status'', Str ''New''),
                       (''Phone'', from' inp),
                       (''Tenant'', tenant_id inp)]
                      (reply_welcome (companyName inp) (botName inp) options)
                      (extras0\<lparr>createLead := True\<rparr>)))))"

subsection \<open>Greeting\<close>

definition is_greeting :: "string \<Rightarrow> bool" where
  \<comment> \<open>\<open>^(hi|hello|hey|start|helo|restart)$\<close>\<close>
  "is_greeting msg \<longleftrightarrow> msg \<in> set [''hi'', ''hello'', ''hey'', ''start'', ''helo'', ''restart'']"

definition greeting :: "input \<Rightarrow> fault + response" where
  "greeting inp =
     (case formatOptions (tenantTypes inp) of
        Inl e \<Rightarrow> Inl e
      | Inr options \<Rightarrow>
          Inr (reply ''update'' [(stage_field, Str ''asked_buy_or_rent'')]
            (reply_welcome_back (companyName inp) (botName inp) options) extras0))"

subsection \<open>Stage 1: property type\<close>

fun mapping_entries :: "nat \<Rightarrow> string list \<Rightarrow> (string \<times> jsval) list" where
  \<comment> \<open>the assignments of the \<open>forEach\<close>, in their order, from \<open>index + 1 = i\<close>\<close>
  "mapping_entries i [] = []"
| "mapping_entries i (t # ts) =
     (show_nat i, Str t) # (toLowerCase t, Str t) # mapping_entries (Suc i) ts"

definition lookup_typeMapping :: "(string \<times> jsval) list \<Rightarrow> string \<Rightarrow> jsval" where
  \<comment> \<open>\<open>typeMapping[k]\<close> for a lower-case key. The last assignment to a key wins.
      \<open>typeMapping\<close> is an object literal: an assignment of a string to \<open>__proto__\<close> is
      ignored, and a key the object does not own is looked up in \<open>Object.prototype\<close>,
      whose only lower-case property names are \<open>__proto__\<close> and \<open>constructor\<close>.\<close>
  "lookup_typeMapping es k =
     (if k = ''__proto__'' then Native ''Object.prototype''
      else (case map_of (rev es) k of
              Some v \<Rightarrow> v
            | None \<Rightarrow> if k = ''constructor'' then Native ''Object'' else Undefined))"

definition stage_type :: "input \<Rightarrow> string \<Rightarrow> fault + response" where
  "stage_type inp msg =
     (case split_types (tenantTypes inp) of
        Inl e \<Rightarrow> Inl e
      | Inr ts \<Rightarrow>
          (let selectedType = lookup_typeMapping (mapping_entries 1 (map trim ts)) msg
           in if \<not> truthy selectedType then
                (case formatOptions (tenantTypes inp) of
                   Inl e \<Rightarrow> Inl e
                 | Inr options \<Rightarrow> Inr (invalid (reply_choose_type options)))
              else
                Inr (reply ''update''
                  [(''Interest'', selectedType), (stage_field, Str ''asked_name'')]
                  reply_ask_name extras0)))"

subsection \<open>Stage 2: name\<close>

definition extract_name :: "string \<Rightarrow> string" where
  "extract_name msg =
     (case search (phrase_rest ''my name is '') msg of Some r \<Rightarrow> r | None \<Rightarrow>
      (case search (phrase_rest ''i am '') msg of Some r \<Rightarrow> r | None \<Rightarrow>
       (case search (phrase_rest (''i'' @ apos @ ''m '')) msg of Some r \<Rightarrow> r | None \<Rightarrow>
        (case search (phrase_rest ''this is '') msg of Some r \<Rightarrow> r | None \<Rightarrow>
         (if name_shape msg then msg else [])))))"

definition clean_name :: "string \<Rightarrow> string" where
  "clean_name name =
     join '' '' (map capitalize
       (split_spaces (filter (\<lambda>c. is_alpha c \<or> is_space c) (trim name))))"

definition stage_name :: "string \<Rightarrow> response" where
  "stage_name msg =
     (let name = extract_name msg
      in if name = [] \<or> length name < 2 then invalid reply_name_invalid
         else reply ''update''
                [(''Name'', Str (clean_name name)), (stage_field, Str ''asked_budget'')]
                (reply_ask_budget (Str (clean_name name))) extras0)"

subsection \<open>Stage 3: budget\<close>

definition extract_budget :: "string \<Rightarrow> string" where
  "extract_budget msg =
     (case search (phrase_rest ''budget is '') msg of Some r \<Rightarrow> r | None \<Rightarrow>
      (case search (phrase_rest ''i have '') msg of Some r \<Rightarrow> r | None \<Rightarrow>
       (case search (phrase_rest ''around '') msg of Some r \<Rightarrow> r | None \<Rightarrow>
        (case search (phrase_rest ''about '') msg of Some r \<Rightarrow> r | None \<Rightarrow> msg))))"

definition clean_budget :: "string \<Rightarrow> string" where
  \<comment> \<open>\<open>budgetStr.replace(/[^0-9.,mkMK]/g, '').toUpperCase()\<close>\<close>
  "clean_budget b = toUpperCase (filter (\<lambda>c. c \<in> set ''0123456789.,mkMK'') b)"

definition parse_budget :: "string \<Rightarrow> jsnum" where
  \<comment> \<open>the block "Parse budget", on \<open>budgetStr\<close>\<close>
  "parse_budget budgetStr =
     (let budget = filter (\<lambda>c. c \<noteq> CHR '','') budgetStr
      in if includes_str budget ''M'' then num_times (parseFloat budget) 1000000
         else if includes_str budget ''K'' then num_times (parseFloat budget) 1000
         else parseFloat budget)"

definition stage_budget :: "input \<Rightarrow> string \<Rightarrow> response" where
  "stage_budget inp msg =
     (let budgetStr = clean_budget (extract_budget msg)
      in if \<not> budget_shape budgetStr then invalid reply_budget_invalid
         else reply ''fetch_locations''
                [(''Budget'', NumStr (parse_budget budgetStr)),
                 (stage_field, Str ''fetching_locations'')]
                reply_checking_areas
                (extras0\<lparr>interest := or_else (lead_interest inp) (lead_interest inp)\<rparr>))"

subsection \<open>Stage 4: location\<close>

definition extract_location :: "string \<Rightarrow> string" where
  "extract_location msg =
     (case search (phrase_rest ''in '') msg of Some r \<Rightarrow> r | None \<Rightarrow>
      (case search (phrase_rest ''at '') msg of Some r \<Rightarrow> r | None \<Rightarrow> msg))"

definition clean_location :: "string \<Rightarrow> string" where
  "clean_location l = join '' '' (map capitalize (split_spaces (trim l)))"

definition stage_location :: "input \<Rightarrow> string \<Rightarrow> response" where
  "stage_location inp msg =
     (let loc = extract_location msg
      in if search two_letters loc = None then invalid reply_location_invalid
         else reply ''fetch_sizes''
                [(''Location'', Str (clean_location loc)),
                 (stage_field, Str ''fetching_sizes'')]
                (reply_checking_location (Str (clean_location loc)))
                (extras0\<lparr>interest := or_else (lead_interest inp) (lead_interest inp),
                         location := Str (clean_location loc)\<rparr>))"

subsection \<open>Stage 5: size (houses)\<close>

definition finalInterest :: "input \<Rightarrow> string \<Rightarrow> jsval" where
  \<comment> \<open>\<open>lead.Interest || input.lead_interest || d\<close>\<close>
  "finalInterest inp d = or_else (or_else (lead_interest inp) (lead_interest inp)) (Str d)"

definition finalBudget :: "input \<Rightarrow> jsval" where
  "finalBudget inp = or_else (or_else (lead_budget inp) (lead_budget inp)) (Str ''Not specified'')"

definition finalLocation :: "input \<Rightarrow> jsval" where
  "finalLocation inp =
     or_else (or_else (lead_location inp) (lead_location inp)) (Str ''Not specified'')"

definition extract_bedrooms :: "string \<Rightarrow> string" where
  "extract_bedrooms msg =
     (case search (digits_word ''bed'') msg of Some d \<Rightarrow> d | None \<Rightarrow>
      (case search (want_need some_digits) msg of Some d \<Rightarrow> d | None \<Rightarrow>
       (if all_digits msg then msg else msg)))"

definition stage_size :: "input \<Rightarrow> string \<Rightarrow> response" where
  "stage_size inp msg =
     (case parseInt (extract_bedrooms msg) of
        None \<Rightarrow> invalid reply_bedrooms_invalid
      | Some n \<Rightarrow>
          if n < 1 \<or> n > 20 then invalid reply_bedrooms_invalid
          else reply ''update''
                 [(''Size'', Str (show_nat (nat n) @ '' bedroom'')),
                  (stage_field, Str ''completed''),
                  (''Status'', Str ''Contacted'')]
                 (reply_searching (finalInterest inp ''Not specified'') (finalBudget inp)
                    (finalLocation inp) (num_of_int n))
                 (extras0\<lparr>interest := finalInterest inp ''Not specified'',
                          bedrooms := num_of_int n,
                          requestedBedrooms := num_of_int n,
                          location := finalLocation inp,
                          searchProperties := True\<rparr>))"

subsection \<open>Stage 5B: land size\<close>

definition extract_plotSize :: "string \<Rightarrow> string \<Rightarrow> string" where
  "extract_plotSize originalMessage msg =
     (if search plot_shape msg \<noteq> None then trim originalMessage
      else (case search (want_need (phrase_rest [])) msg of
              Some r \<Rightarrow> r
            | None \<Rightarrow> trim originalMessage))"

definition stage_land_size :: "input \<Rightarrow> string \<Rightarrow> string \<Rightarrow> response" where
  "stage_land_size inp originalMessage msg =
     (let plot = extract_plotSize originalMessage msg
      in if length plot < 2 then invalid reply_plot_invalid
         else reply ''update''
                [(''Size'', Str plot),
                 (stage_field, Str ''completed''),
                 (''Status'', Str ''Contacted'')]
                (reply_searching_land (finalInterest inp ''Land'') (finalBudget inp)
                   (finalLocation inp) (Str plot))
                (extras0\<lparr>interest := finalInterest inp ''Land'',
                         location := finalLocation inp,
                         plotSize := Str plot,
                         searchProperties := True\<rparr>))"

subsection \<open>Stage 7: booking request, and stage 8: time slot\<close>

definition pick_number :: "string \<Rightarrow> string \<Rightarrow> int option" where
  \<comment> \<open>\<open>propertyNumber\<close> for the word \<open>property\<close> and \<open>slotNumber\<close> for the word \<open>slot\<close>;
      \<open>None\<close> is \<open>null\<close>\<close>
  "pick_number word msg =
     (case search (word_digits word) msg of Some d \<Rightarrow> parseInt d | None \<Rightarrow>
      (if all_digits msg then parseInt msg
       else (case search (word_digits ''number'') msg of Some d \<Rightarrow> parseInt d
             | None \<Rightarrow> None)))"

definition stage_completed :: "string \<Rightarrow> response" where
  "stage_completed msg =
     (case pick_number ''property'' msg of
        None \<Rightarrow> invalid reply_property_invalid
      | Some n \<Rightarrow>
          if n = 0 then invalid reply_property_invalid
          else reply ''booking''
                 [(stage_field, Str ''awaiting_time_slot''),
                  (''Selected Property Number'', num_of_int n)]
                 reply_checking_availability
                 (extras0\<lparr>propertyNumber := num_of_int n\<rparr>))"

definition stage_time_slot :: "string \<Rightarrow> response" where
  "stage_time_slot msg =
     (case pick_number ''slot'' msg of
        None \<Rightarrow> invalid reply_slot_invalid
      | Some n \<Rightarrow>
          if n = 0 then invalid reply_slot_invalid
          else reply ''create_booking''
                 [(stage_field, Str ''booking_confirmed''),
                  (''Selected Time Slot'', num_of_int n)]
                 reply_creating_booking
                 (extras0\<lparr>selectedTime := num_of_int n,
                          bookingRequest := True\<rparr>))"

subsection \<open>Cancel, and the default\<close>

definition cancel :: response where
  "cancel =
     reply ''cancel_booking''
       [(stage_field, Str ''booking_cancelled''), (''Status'', Str ''Cancelled'')]
       reply_cancelling extras0"

definition getHelpMessage :: "jsval \<Rightarrow> piece list" where
  "getHelpMessage currentStage =
     (if currentStage = Str ''asked_buy_or_rent'' then help_type
      else if currentStage = Str ''asked_name'' then help_name
      else if currentStage = Str ''asked_budget'' then help_budget
      else if currentStage = Str ''asked_location'' then help_location
      else if currentStage = Str ''asked_size'' then help_size
      else if currentStage = Str ''asked_land_size'' then help_land_size
      else if currentStage = Str ''awaiting_time_slot'' then help_time_slot
      else if currentStage = Str ''booking_confirmed'' then help_booking_confirmed
      else help_default)"

subsection \<open>The function\<close>

text \<open>
  \<open>handleMessage_try\<close> is the \<open>try\<close> block: \<open>Inl\<close> is an exception thrown in it. The
  argument \<open>None\<close> is a call with \<open>undefined\<close> or \<open>null\<close>, on which the first property
  read throws. \<open>input.message || ""\<close> has the method \<open>toLowerCase\<close> only when it is a
  string. \<open>handleMessage\<close> adds the \<open>catch\<close> block; the function is \<open>async\<close>, and the
  value here is what its promise resolves to.
\<close>

definition stages :: "input \<Rightarrow> string \<Rightarrow> string \<Rightarrow> jsval \<Rightarrow> fault + response" where
  \<comment> \<open>the blocks from "Stage 1" to the default, for an existing lead and no greeting\<close>
  "stages inp originalMessage msg stage =
     (if stage = Str ''asked_buy_or_rent'' then stage_type inp msg
      else if stage = Str ''asked_name'' then Inr (stage_name msg)
      else if stage = Str ''asked_budget'' then Inr (stage_budget inp msg)
      else if stage = Str ''asked_location'' then Inr (stage_location inp msg)
      else if stage = Str ''asked_size'' then Inr (stage_size inp msg)
      else if stage = Str ''asked_land_size'' then Inr (stage_land_size inp originalMessage msg)
      else if stage = Str ''completed'' then Inr (stage_completed msg)
      else if stage = Str ''awaiting_time_slot'' then Inr (stage_time_slot msg)
      else if stage = Str ''booking_confirmed'' \<and> includes_str msg ''cancel'' then Inr cancel
      else Inr (invalid (getHelpMessage stage)))"

definition handleMessage_try :: "input option \<Rightarrow> fault + response" where
  "handleMessage_try input =
     (case input of
        None \<Rightarrow> Inl TypeError
      | Some inp \<Rightarrow>
          (case or_else (message inp) (Str []) of
             Str originalMessage \<Rightarrow>
               (let msg = trim (toLowerCase originalMessage)
                in if leadExists inp \<and> truthy (awaiting_followup_response inp) \<and>
                      (msg = ''1'' \<or> msg = ''2'')
                   then Inr (followup inp msg)
                   else if \<not> leadExists inp then new_user inp originalMessage
                   else if is_greeting msg then greeting inp
                   else stages inp originalMessage msg (stage_of inp))
           | _ \<Rightarrow> Inl TypeError))"

definition error_response :: response where
  "error_response =
     \<lparr>action = ''error'', updateFields = None, replyMessage = reply_error, extras = None,
      agentNotification = None\<rparr>"

definition handleMessage :: "input option \<Rightarrow> response" where
  "handleMessage input =
     (case handleMessage_try input of Inl e \<Rightarrow> error_response | Inr r \<Rightarrow> r)"

section \<open>handleMessage, the variant with exact tokens\<close>

text \<open>
  Lines 676 to 1015 of the source: a second \<open>handleMessage\<close>, with no follow-up handler
  and no detection of the interest, whose stages accept only the exact shapes. Its
  definitions carry the suffix \<open>2\<close>.
\<close>

fun option_lines2 :: "string list \<Rightarrow> piece list" where
  \<comment> \<open>\<open>.map(t => `<bullet> ${t.trim()}`).join('\n')\<close>\<close>
  "option_lines2 [] = []"
| "option_lines2 [t] = [U 0x2022, T '' '', T (trim t)]"
| "option_lines2 (t # u # ts) =
     [U 0x2022, T '' '', T (trim t), T ''\<newline>''] @ option_lines2 (u # ts)"

definition formatOptions2 :: "jsval \<Rightarrow> fault + piece list" where
  "formatOptions2 types =
     (case split_types types of Inl e \<Rightarrow> Inl e | Inr ts \<Rightarrow> Inr (option_lines2 ts))"

definition new_user2 :: "input \<Rightarrow> fault + response" where
  "new_user2 inp =
     (case formatOptions2 (tenantTypes inp) of
        Inl e \<Rightarrow> Inl e
      | Inr options \<Rightarrow>
          Inr (reply ''create''
            [(stage_field, Str ''asked_buy_or_rent''),
             (''Status'', Str ''New''),
             (''Phone'', from' inp),
             (''Tenant'', tenant_id inp)]
            (reply_welcome2 (companyName inp) (botName inp) options)
            (extras0\<lparr>createLead := True\<rparr>)))"

definition is_greeting2 :: "string \<Rightarrow> bool" where
  \<comment> \<open>\<open>^(hi|hello|hey|start|helo)$\<close>\<close>
  "is_greeting2 msg \<longleftrightarrow> msg \<in> set [''hi'', ''hello'', ''hey'', ''start'', ''helo'']"

definition greeting2 :: "input \<Rightarrow> fault + response" where
  "greeting2 inp =
     (case formatOptions2 (tenantTypes inp) of
        Inl e \<Rightarrow> Inl e
      | Inr options \<Rightarrow>
          Inr (reply ''update'' [(stage_field, Str ''asked_buy_or_rent'')]
            (reply_welcome_back2 (companyName inp) (botName inp) options) extras0))"

definition stage_type2 :: "input \<Rightarrow> string \<Rightarrow> fault + response" where
  "stage_type2 inp msg =
     (case split_types (tenantTypes inp) of
        Inl e \<Rightarrow> Inl e
      | Inr ts \<Rightarrow>
          if msg \<notin> set (map (\<lambda>t. toLowerCase (trim t)) ts) then Inr (invalid reply_choose_type2)
          else Inr (reply ''update''
                 [(''Interest'', Str (capitalize_first msg)), (stage_field, Str ''asked_name'')]
                 reply_ask_name2 extras0))"

definition capitalize_words2 :: "string \<Rightarrow> string" where
  \<comment> \<open>\<open>message.split(' ').map(word => word.charAt(0).toUpperCase() + word.slice(1)).join(' ')\<close>\<close>
  "capitalize_words2 msg = join '' '' (map capitalize_first (split_on CHR '' '' msg))"

definition stage_name2 :: "string \<Rightarrow> response" where
  "stage_name2 msg =
     reply ''update''
       [(''Name'', Str (capitalize_words2 msg)), (stage_field, Str ''asked_budget'')]
       (reply_ask_budget2 (Str (capitalize_words2 msg))) extras0"

definition parse_budget2 :: "string \<Rightarrow> jsnum" where
  "parse_budget2 msg =
     (let budget = toUpperCase (filter (\<lambda>c. c \<noteq> CHR '','') msg)
      in if includes_str budget ''M'' then num_times (parseFloat budget) 1000000
         else if includes_str budget ''K'' then num_times (parseFloat budget) 1000
         else parseFloat budget)"

definition stage_budget2 :: "input \<Rightarrow> string \<Rightarrow> response" where
  "stage_budget2 inp msg =
     reply ''fetch_locations''
       [(''Budget'', NumStr (parse_budget2 msg)), (stage_field, Str ''fetching_locations'')]
       reply_checking_areas
       (extras0\<lparr>interest := or_else (lead_interest inp) (lead_interest inp)\<rparr>)"

definition stage_location2 :: "input \<Rightarrow> string \<Rightarrow> response" where
  "stage_location2 inp msg =
     reply ''fetch_sizes''
       [(''Location'', Str (capitalize_words2 msg)), (stage_field, Str ''fetching_sizes'')]
       (reply_checking_location (Str (capitalize_words2 msg)))
       (extras0\<lparr>interest := or_else (lead_interest inp) (lead_interest inp),
                location := Str (capitalize_words2 msg)\<rparr>)"

definition num_of_parse :: "int option \<Rightarrow> jsval" where
  \<comment> \<open>the number that \<open>parseInt\<close> returns\<close>
  "num_of_parse n = (case n of None \<Rightarrow> Num NaN | Some k \<Rightarrow> num_of_int k)"

definition stage_size2 :: "input \<Rightarrow> string \<Rightarrow> response" where
  "stage_size2 inp msg =
     reply ''update''
       [(''Size'', Str (trim msg @ '' bedroom'')),
        (stage_field, Str ''completed''),
        (''Status'', Str ''Contacted'')]
       (reply_searching (finalInterest inp ''Not specified'') (finalBudget inp)
          (finalLocation inp) (Str (trim msg)))
       (extras0\<lparr>interest := finalInterest inp ''Not specified'',
                bedrooms := num_of_parse (parseInt (trim msg)),
                requestedBedrooms := num_of_parse (parseInt (trim msg)),
                location := finalLocation inp,
                searchProperties := True\<rparr>)"

definition stage_land_size2 :: "input \<Rightarrow> string \<Rightarrow> response" where
  "stage_land_size2 inp msg =
     reply ''update''
       [(''Size'', Str (trim msg)),
        (stage_field, Str ''completed''),
        (''Status'', Str ''Contacted'')]
       (reply_searching_land (finalInterest inp ''Land'') (finalBudget inp)
          (finalLocation inp) (Str (trim msg)))
       (extras0\<lparr>interest := finalInterest inp ''Land'',
                location := finalLocation inp,
                plotSize := Str (trim msg),
                searchProperties := True\<rparr>)"

definition stage_completed2 :: "string \<Rightarrow> response" where
  \<comment> \<open>\<open>parseInt(message.match(/\d+/)[0])\<close>: the first run of digits\<close>
  "stage_completed2 msg =
     (let n = num_of_parse (case search some_digits msg of Some d \<Rightarrow> parseInt d | None \<Rightarrow> None)
      in reply ''booking''
           [(stage_field, Str ''awaiting_time_slot''), (''Selected Property Number'', n)]
           reply_checking_availability
           (extras0\<lparr>propertyNumber := n\<rparr>))"

definition stage_time_slot2 :: "string \<Rightarrow> response" where
  "stage_time_slot2 msg =
     reply ''create_booking''
       [(stage_field, Str ''booking_confirmed''),
        (''Selected Time Slot'', num_of_parse (parseInt msg))]
       reply_creating_booking
       (extras0\<lparr>selectedTime := num_of_parse (parseInt msg), bookingRequest := True\<rparr>)"

definition getHelpMessage2 :: "jsval \<Rightarrow> piece list" where
  "getHelpMessage2 currentStage =
     (if currentStage = Str ''asked_buy_or_rent'' then help_type2
      else if currentStage = Str ''asked_name'' then help_name2
      else if currentStage = Str ''asked_budget'' then help_budget2
      else if currentStage = Str ''asked_location'' then help_location2
      else if currentStage = Str ''asked_size'' then help_size
      else if currentStage = Str ''asked_land_size'' then help_land_size2
      else if currentStage = Str ''awaiting_time_slot'' then help_time_slot2
      else help_default2)"

definition stages2 :: "input \<Rightarrow> string \<Rightarrow> jsval \<Rightarrow> fault + response" where
  \<comment> \<open>the blocks from "Stage 1" to the default, for an existing lead and no greeting\<close>
  "stages2 inp msg stage =
     (if stage = Str ''asked_buy_or_rent'' then stage_type2 inp msg
      else if stage = Str ''asked_name'' \<and> name_shape2 msg then Inr (stage_name2 msg)
      else if stage = Str ''asked_budget'' \<and> budget_shape2 msg then Inr (stage_budget2 inp msg)
      else if stage = Str ''asked_location'' \<and> location_shape2 msg
        then Inr (stage_location2 inp msg)
      else if stage = Str ''asked_size'' \<and> spaced_digits msg then Inr (stage_size2 inp msg)
      else if stage = Str ''asked_land_size'' then Inr (stage_land_size2 inp msg)
      else if stage = Str ''completed'' \<and> property_digits msg then Inr (stage_completed2 msg)
      else if stage = Str ''awaiting_time_slot'' \<and> all_digits msg
        then Inr (stage_time_slot2 msg)
      else if msg = ''cancel'' \<and> stage = Str ''booking_confirmed'' then Inr cancel
      else Inr (invalid (getHelpMessage2 stage)))"

definition handleMessage2_try :: "input option \<Rightarrow> fault + response" where
  "handleMessage2_try input =
     (case input of
        None \<Rightarrow> Inl TypeError
      | Some inp \<Rightarrow>
          (case or_else (message inp) (Str []) of
             Str m \<Rightarrow>
               (let msg = trim (toLowerCase m)
                in if \<not> leadExists inp then new_user2 inp
                   else if is_greeting2 msg then greeting2 inp
                   else stages2 inp msg (stage_of inp))
           | _ \<Rightarrow> Inl TypeError))"

definition error_response2 :: response where
  "error_response2 =
     \<lparr>action = ''error'', updateFields = None, replyMessage = reply_error2, extras = None,
      agentNotification = None\<rparr>"

definition handleMessage2 :: "input option \<Rightarrow> response" where
  "handleMessage2 input =
     (case handleMessage2_try input of Inl e \<Rightarrow> error_response2 | Inr r \<Rightarrow> r)"

section \<open>The validation of the stages\<close>

definition stage_accepts :: "input \<Rightarrow> string \<Rightarrow> string \<Rightarrow> jsval \<Rightarrow> bool" where
  \<comment> \<open>the validation of each stage in the variant with natural language: what the block
      of the stage checks before it updates the lead\<close>
  "stage_accepts inp originalMessage msg stage \<longleftrightarrow>
     (if stage = Str ''asked_buy_or_rent'' then
        (case split_types (tenantTypes inp) of
           Inl e \<Rightarrow> False
         | Inr ts \<Rightarrow> truthy (lookup_typeMapping (mapping_entries 1 (map trim ts)) msg))
      else if stage = Str ''asked_name'' then 2 \<le> length (extract_name msg)
      else if stage = Str ''asked_budget'' then budget_shape (clean_budget (extract_budget msg))
      else if stage = Str ''asked_location''
        then search two_letters (extract_location msg) \<noteq> None
      else if stage = Str ''asked_size''
        then (case parseInt (extract_bedrooms msg) of None \<Rightarrow> False
              | Some n \<Rightarrow> 1 \<le> n \<and> n \<le> 20)
      else if stage = Str ''asked_land_size''
        then 2 \<le> length (extract_plotSize originalMessage msg)
      else if stage = Str ''completed''
        then (case pick_number ''property'' msg of None \<Rightarrow> False | Some n \<Rightarrow> n \<noteq> 0)
      else if stage = Str ''awaiting_time_slot''
        then (case pick_number ''slot'' msg of None \<Rightarrow> False | Some n \<Rightarrow> n \<noteq> 0)
      else if stage = Str ''booking_confirmed'' then includes_str msg ''cancel''
      else False)"

definition stage_accepts2 :: "input \<Rightarrow> string \<Rightarrow> jsval \<Rightarrow> bool" where
  \<comment> \<open>the validation of each stage in the variant with exact tokens\<close>
  "stage_accepts2 inp msg stage \<longleftrightarrow>
     (if stage = Str ''asked_buy_or_rent'' then
        (case split_types (tenantTypes inp) of
           Inl e \<Rightarrow> False
         | Inr ts \<Rightarrow> msg \<in> set (map (\<lambda>t. toLowerCase (trim t)) ts))
      else if stage = Str ''asked_name'' then name_shape2 msg
      else if stage = Str ''asked_budget'' then budget_shape2 msg
      else if stage = Str ''asked_location'' then location_shape2 msg
      else if stage = Str ''asked_size'' then spaced_digits msg
      else if stage = Str ''asked_land_size'' then True
      else if stage = Str ''completed'' then property_digits msg
      else if stage = Str ''awaiting_time_slot'' then all_digits msg
      else if stage = Str ''booking_confirmed'' then msg = ''cancel''
      else False)"

definition rejected :: "response \<Rightarrow> bool" where
  \<comment> \<open>the action is \<open>invalid\<close> and no field is to be persisted\<close>
  "rejected r \<longleftrightarrow> action r = ''invalid'' \<and> updateFields r = Some []"

section \<open>The sequence of stages\<close>

definition stage_rank :: "jsval \<Rightarrow> nat option" where
  \<comment> \<open>the place of a stage in the sequence of the specification; \<open>asked_size\<close> and
      \<open>asked_land_size\<close> share a place\<close>
  "stage_rank v =
     map_of
       [(Str ''asked_buy_or_rent'', 1), (Str ''asked_name'', 2), (Str ''asked_budget'', 3),
        (Str ''fetching_locations'', 4), (Str ''asked_location'', 5),
        (Str ''fetching_sizes'', 6), (Str ''asked_size'', 7), (Str ''asked_land_size'', 7),
        (Str ''completed'', 8), (Str ''awaiting_time_slot'', 9),
        (Str ''booking_confirmed'', 10), (Str ''booking_cancelled'', 11)] v"

definition new_stage :: "response \<Rightarrow> jsval option" where
  \<comment> \<open>the entry "Conversation Stage" of \<open>updateFields\<close>, when there is one\<close>
  "new_stage r = (case updateFields r of None \<Rightarrow> None | Some fs \<Rightarrow> map_of fs stage_field)"

definition forward :: "jsval \<Rightarrow> jsval \<Rightarrow> bool" where
  \<comment> \<open>both stages are in the sequence, and the second is strictly later\<close>
  "forward st s \<longleftrightarrow> (\<exists>a b. stage_rank st = Some a \<and> stage_rank s = Some b \<and> a < b)"

section \<open>Slot calculation\<close>


record slot =
  slot_start :: int
  slot_end :: int

definition hour_ms :: int where
  "hour_ms = 3600000"

definition day_ms :: int where
  "day_ms = 86400000"



definition overlaps :: "(int option \<times> int option) list \<Rightarrow> int \<Rightarrow> int \<Rightarrow> bool" where
  \<comment> \<open>\<open>booked.some(b => start < b.end && end > b.start)\<close>\<close>
  "overlaps booked start fin =
     list_ex (\<lambda>b. (case snd b of None \<Rightarrow> False | Some be \<Rightarrow> start < be) \<and>
                   (case fst b of None \<Rightarrow> False | Some bs \<Rightarrow> fin > bs)) booked"

definition local_day :: "int \<Rightarrow> int \<Rightarrow> int" where
  \<comment> \<open>the number of the local calendar day of a time value, counted from 1 January 1970\<close>
  "local_day tz t = (t + tz) div day_ms"

definition getDay :: "int \<Rightarrow> int" where
  \<comment> \<open>the day of the week of a calendar day: 0 is Sunday, and day 0 was a Thursday\<close>
  "getDay d = (d + 4) mod 7"

definition midnight :: "int \<Rightarrow> int \<Rightarrow> int" where
  \<comment> \<open>the time value of local midnight of a calendar day\<close>
  "midnight tz d = d * day_ms - tz"

function hours_loop ::
  "int \<Rightarrow> (int option \<times> int option) list \<Rightarrow> int \<Rightarrow> int \<Rightarrow> int \<Rightarrow> slot list \<Rightarrow> slot list" where
  \<comment> \<open>the inner \<open>for\<close>, from hour \<open>h\<close>; \<open>day\<close> is local midnight\<close>
  "hours_loop minSlotTime booked day workEnd h freeSlots =
     (if h < workEnd \<and> length freeSlots < 5 then
        (let slotStart = day + h * hour_ms;
             slotEnd = slotStart + 60 * 60000
         in if slotStart \<le> minSlotTime then
              hours_loop minSlotTime booked day workEnd (h + 1) freeSlots
            else if overlaps booked slotStart slotEnd then
              hours_loop minSlotTime booked day workEnd (h + 1) freeSlots
            else
              hours_loop minSlotTime booked day workEnd (h + 1)
                (freeSlots @ [\<lparr>slot_start = slotStart, slot_end = slotEnd\<rparr>]))
      else freeSlots)"
  by pat_completeness auto
termination
  by (relation "measure (\<lambda>(m, b, d, workEnd, h, f). nat (workEnd - h))") auto

function days_loop ::
  "int \<Rightarrow> int \<Rightarrow> (int option \<times> int option) list \<Rightarrow> int \<Rightarrow> int \<Rightarrow> int \<Rightarrow> int \<Rightarrow> slot list
     \<Rightarrow> slot list" where
  \<comment> \<open>the outer \<open>for\<close>, from day \<open>i\<close>\<close>
  "days_loop tz now booked workStart workEnd daysAhead i freeSlots =
     (if i < daysAhead \<and> length freeSlots < 5 then
        (let d = local_day tz now + i
         in if getDay d = 0 \<or> getDay d = 6 then
              days_loop tz now booked workStart workEnd daysAhead (i + 1) freeSlots
            else
              days_loop tz now booked workStart workEnd daysAhead (i + 1)
                (hours_loop (now + 60 * 60 * 1000) booked (midnight tz d) workEnd workStart
                   freeSlots))
      else freeSlots)"
  by pat_completeness auto
termination
  by (relation "measure (\<lambda>(tz, n, b, ws, we, daysAhead, i, f). nat (daysAhead - i))") auto



section \<open>Example inputs\<close>

definition no_lead :: input where
  \<comment> \<open>a request with a sender and a tenant only\<close>
  "no_lead =
     \<lparr>message = Undefined, from' = Str ''254700000001'', lead_id = Undefined,
      lead_stage = Undefined, lead_interest = Undefined, lead_budget = Undefined,
      lead_location = Undefined, lead_size = Undefined, lead_name = Undefined,
      awaiting_followup_response = Undefined, last_viewed_property = Undefined,
      tenant_whatsapp = Undefined, tenant_bot_name = Undefined,
      tenant_company_name = Undefined, tenant_property_types = Str ''Buy, Rent'',
      tenant_id = Str ''tenant1''\<rparr>"

definition lead_at :: "string \<Rightarrow> string \<Rightarrow> input" where
  \<comment> \<open>an existing lead at a stage, sending a message\<close>
  "lead_at st m = no_lead\<lparr>lead_id := Str ''rec1'', lead_stage := Str st, message := Str m\<rparr>"

definition followup_lead :: "string \<Rightarrow> string \<Rightarrow> input" where
  \<comment> \<open>an existing lead that was asked for its feedback after a viewing\<close>
  "followup_lead st m = (lead_at st m)\<lparr>awaiting_followup_response := Bool True\<rparr>"



section \<open>Basic facts\<close>

lemma or_else_message: "or_else (Str m) (Str []) = Str m"
  by (simp add: or_else_def truthy_def)

lemma stage_of_Str: "lead_stage inp = Str (c # cs) \<Longrightarrow> stage_of inp = Str (c # cs)"
  by (simp add: stage_of_def or_else_def truthy_def)

lemma action_invalid: "action (invalid m) = ''invalid''"
  by (simp add: invalid_def reply_def)

lemma updateFields_invalid: "updateFields (invalid m) = Some []"
  by (simp add: invalid_def reply_def)

lemma formatOptions_Str: "formatOptions (Str s) = Inr (option_lines 1 (split_on CHR '','' s))"
  by (simp add: formatOptions_def split_types_def)

lemma formatOptions2_Str: "formatOptions2 (Str s) = Inr (option_lines2 (split_on CHR '','' s))"
  by (simp add: formatOptions2_def split_types_def)

section \<open>Stage dispatch\<close>

lemma existing_lead:
  assumes "leadExists inp" and "message inp = Str m"
    and "\<not> (truthy (awaiting_followup_response inp) \<and>
            (trim (toLowerCase m) = ''1'' \<or> trim (toLowerCase m) = ''2''))"
    and "\<not> is_greeting (trim (toLowerCase m))"
  shows "handleMessage_try (Some inp) = stages inp m (trim (toLowerCase m)) (stage_of inp)"
  unfolding handleMessage_try_def
  using assms(3,4) by (auto simp: assms(1,2) or_else_message Let_def)

lemma existing_lead2:
  assumes "leadExists inp" and "message inp = Str m"
    and "\<not> is_greeting2 (trim (toLowerCase m))"
  shows "handleMessage2_try (Some inp) = stages2 inp (trim (toLowerCase m)) (stage_of inp)"
  unfolding handleMessage2_try_def
  using assms(3) by (simp add: assms(1,2) or_else_message Let_def)


section \<open>Faults\<close>



section \<open>Rejected messages\<close>

lemma rejected_invalid: "rejected (invalid m)"
  by (simp add: rejected_def action_invalid updateFields_invalid)

lemma stages_rejected:
  assumes "tenantTypes inp = Str ts" and "\<not> stage_accepts inp m msg st"
  shows "\<exists>r. stages inp m msg st = Inr r \<and> rejected r"
  using assms unfolding stages_def stage_accepts_def
  by (auto simp: rejected_invalid split_types_def stage_type_def formatOptions_Str
      stage_name_def stage_budget_def stage_location_def stage_size_def stage_land_size_def
      stage_completed_def stage_time_slot_def Let_def not_le
      split: if_splits option.splits)

lemma stages2_rejected:
  assumes "tenantTypes inp = Str ts" and "\<not> stage_accepts2 inp msg st"
  shows "\<exists>r. stages2 inp msg st = Inr r \<and> rejected r"
  using assms unfolding stages2_def stage_accepts2_def
  by (auto simp: rejected_invalid split_types_def stage_type2_def split: if_splits)


lemma stages_frame:
  assumes "stages inp m msg st = Inr r" and "action r = ''invalid''"
  shows "updateFields r = Some []"
  using assms unfolding stages_def
  by (auto simp: stage_type_def stage_name_def stage_budget_def stage_location_def
      stage_size_def stage_land_size_def stage_completed_def stage_time_slot_def cancel_def
      invalid_def reply_def Let_def split: if_splits option.splits sum.splits)

lemma stages2_frame:
  assumes "stages2 inp msg st = Inr r" and "action r = ''invalid''"
  shows "updateFields r = Some []"
  using assms unfolding stages2_def
  by (auto simp: stage_type2_def stage_name2_def stage_budget2_def stage_location2_def
      stage_size2_def stage_land_size2_def stage_completed2_def stage_time_slot2_def cancel_def
      invalid_def reply_def Let_def split: if_splits sum.splits)

lemma try_frame:
  assumes "handleMessage_try input = Inr r" and "action r = ''invalid''"
  shows "updateFields r = Some []"
proof (cases input)
  case None
  with assms show ?thesis
    by (simp add: handleMessage_try_def)
next
  case (Some inp)
  show ?thesis
  proof (cases "or_else (message inp) (Str [])")
    case (Str m)
    have "handleMessage_try input = Inr (followup inp (trim (toLowerCase m))) \<or>
        handleMessage_try input = new_user inp m \<or>
        handleMessage_try input = greeting inp \<or>
        handleMessage_try input = stages inp m (trim (toLowerCase m)) (stage_of inp)"
      by (simp add: handleMessage_try_def Some Str Let_def)
    then consider "handleMessage_try input = Inr (followup inp (trim (toLowerCase m)))"
      | "handleMessage_try input = new_user inp m"
      | "handleMessage_try input = greeting inp"
      | "handleMessage_try input = stages inp m (trim (toLowerCase m)) (stage_of inp)"
      by blast
    then show ?thesis
    proof cases
      case 1
      with assms show ?thesis
        by (auto simp: followup_def Let_def split: if_splits)
    next
      case 2
      with assms show ?thesis
        by (auto simp: new_user_def reply_def split: sum.splits option.splits list.splits)
    next
      case 3
      with assms show ?thesis
        by (auto simp: greeting_def reply_def split: sum.splits)
    next
      case 4
      with assms show ?thesis
        by (auto dest: stages_frame)
    qed
  qed (use assms Some in \<open>simp_all add: handleMessage_try_def\<close>)
qed

lemma try2_frame:
  assumes "handleMessage2_try input = Inr r" and "action r = ''invalid''"
  shows "updateFields r = Some []"
proof (cases input)
  case None
  with assms show ?thesis
    by (simp add: handleMessage2_try_def)
next
  case (Some inp)
  show ?thesis
  proof (cases "or_else (message inp) (Str [])")
    case (Str m)
    have "handleMessage2_try input = new_user2 inp \<or>
        handleMessage2_try input = greeting2 inp \<or>
        handleMessage2_try input = stages2 inp (trim (toLowerCase m)) (stage_of inp)"
      by (simp add: handleMessage2_try_def Some Str Let_def)
    then consider "handleMessage2_try input = new_user2 inp"
      | "handleMessage2_try input = greeting2 inp"
      | "handleMessage2_try input = stages2 inp (trim (toLowerCase m)) (stage_of inp)"
      by blast
    then show ?thesis
    proof cases
      case 1
      with assms show ?thesis
        by (auto simp: new_user2_def reply_def split: sum.splits)
    next
      case 2
      with assms show ?thesis
        by (auto simp: greeting2_def reply_def split: sum.splits)
    next
      case 3
      with assms show ?thesis
        by (auto dest: stages2_frame)
    qed
  qed (use assms Some in \<open>simp_all add: handleMessage2_try_def\<close>)
qed

text \<open>
  Claim C2, amended. In both variants, for an existing lead and a tenant whose property
  types are a string or unset, a message that fails the validation of the stage of the lead
  gets the action \<open>invalid\<close> and an empty \<open>updateFields\<close>, unless it is a greeting or, in
  the variant with the follow-up handler, the answer \<open>1\<close> or \<open>2\<close> of a lead that awaits
  its follow-up; a stage that the function does not know accepts nothing. And for every
  input whatsoever, an answer with the action \<open>invalid\<close> has an empty \<open>updateFields\<close>.
\<close>

theorem failed_validation_rejected:
  assumes "leadExists inp" and "message inp = Str m" and "tenantTypes inp = Str ts"
    and "trim (toLowerCase m) = msg"
  shows "(\<not> (truthy (awaiting_followup_response inp) \<and> (msg = ''1'' \<or> msg = ''2'')) \<and>
          \<not> is_greeting msg \<and> \<not> stage_accepts inp m msg (stage_of inp) \<longrightarrow>
            action (handleMessage (Some inp)) = ''invalid'' \<and>
            updateFields (handleMessage (Some inp)) = Some []) \<and>
         (\<not> is_greeting2 msg \<and> \<not> stage_accepts2 inp msg (stage_of inp) \<longrightarrow>
            action (handleMessage2 (Some inp)) = ''invalid'' \<and>
            updateFields (handleMessage2 (Some inp)) = Some []) \<and>
         (\<forall>input. action (handleMessage input) = ''invalid'' \<longrightarrow>
            updateFields (handleMessage input) = Some []) \<and>
         (\<forall>input. action (handleMessage2 input) = ''invalid'' \<longrightarrow>
            updateFields (handleMessage2 input) = Some [])"
proof (intro conjI impI allI)
  assume a: "\<not> (truthy (awaiting_followup_response inp) \<and> (msg = ''1'' \<or> msg = ''2'')) \<and>
      \<not> is_greeting msg \<and> \<not> stage_accepts inp m msg (stage_of inp)"
  then have "handleMessage_try (Some inp) = stages inp m msg (stage_of inp)"
    using existing_lead [OF assms(1,2)] by (simp add: assms(4))
  moreover obtain r where "stages inp m msg (stage_of inp) = Inr r" "rejected r"
    using stages_rejected [OF assms(3)] a by blast
  ultimately have "rejected (handleMessage (Some inp))"
    by (simp add: handleMessage_def)
  then show "action (handleMessage (Some inp)) = ''invalid''"
    and "updateFields (handleMessage (Some inp)) = Some []"
    by (simp_all add: rejected_def)
next
  assume a: "\<not> is_greeting2 msg \<and> \<not> stage_accepts2 inp msg (stage_of inp)"
  then have "handleMessage2_try (Some inp) = stages2 inp msg (stage_of inp)"
    using existing_lead2 [OF assms(1,2)] by (simp add: assms(4))
  moreover obtain r where "stages2 inp msg (stage_of inp) = Inr r" "rejected r"
    using stages2_rejected [OF assms(3)] a by blast
  ultimately have "rejected (handleMessage2 (Some inp))"
    by (simp add: handleMessage2_def)
  then show "action (handleMessage2 (Some inp)) = ''invalid''"
    and "updateFields (handleMessage2 (Some inp)) = Some []"
    by (simp_all add: rejected_def)
next
  fix input
  assume "action (handleMessage input) = ''invalid''"
  then show "updateFields (handleMessage input) = Some []"
    using try_frame [of input]
    by (cases "handleMessage_try input") (simp_all add: handleMessage_def error_response_def)
next
  fix input
  assume "action (handleMessage2 input) = ''invalid''"
  then show "updateFields (handleMessage2 input) = Some []"
    using try2_frame [of input]
    by (cases "handleMessage2_try input") (simp_all add: handleMessage2_def error_response2_def)
qed

theorem failed_validation_rejected_witness:
  "action (handleMessage (Some (lead_at ''asked_buy_or_rent'' ''villa''))) = ''invalid'' \<and>
   updateFields (handleMessage (Some (lead_at ''asked_buy_or_rent'' ''villa''))) = Some [] \<and>
   action (handleMessage2 (Some (lead_at ''asked_buy_or_rent'' ''villa''))) = ''invalid'' \<and>
   updateFields (handleMessage2 (Some (lead_at ''asked_buy_or_rent'' ''villa''))) = Some []"
proof -
  define ts where "ts = split_on CHR '','' ''Buy, Rent''"
  have t: "trim (toLowerCase ''villa'') = ''villa''"
    "lookup_typeMapping (mapping_entries 1 (map trim ts)) ''villa'' = Undefined"
    "''villa'' \<notin> set (map (\<lambda>t. toLowerCase (trim t)) ts)"
    unfolding ts_def by code_simp+
  have l: "leadExists (lead_at st m)" "message (lead_at st m) = Str m"
    "tenantTypes (lead_at st m) = Str ''Buy, Rent''"
    "\<not> truthy (awaiting_followup_response (lead_at st m))" for st m
    by (simp_all add: lead_at_def no_lead_def leadExists_def truthy_def tenantTypes_def
        or_else_def)
  have p: "split_types (tenantTypes (lead_at st m)) = Inr ts" for st m
    unfolding l split_types_def ts_def by simp
  have s: "stage_of (lead_at ''asked_buy_or_rent'' m) = Str ''asked_buy_or_rent''" for m
    by (simp add: lead_at_def no_lead_def stage_of_def or_else_def truthy_def)
  have a: "\<not> stage_accepts (lead_at ''asked_buy_or_rent'' ''villa'') ''villa'' ''villa''
      (Str ''asked_buy_or_rent'')"
    "\<not> stage_accepts2 (lead_at ''asked_buy_or_rent'' ''villa'') ''villa''
      (Str ''asked_buy_or_rent'')"
    unfolding stage_accepts_def stage_accepts2_def p sum.case t(1,2)
    using t(3) by (simp_all add: truthy_def)
  show ?thesis
    using failed_validation_rejected
        [of "lead_at ''asked_buy_or_rent'' ''villa''" "''villa''" "''Buy, Rent''" "''villa''"] a
    by (simp add: l t(1) s is_greeting_def is_greeting2_def)
qed

text \<open>
  The claim as it stands fails on the follow-up path: for a lead at stage \<open>asked_name\<close>
  that awaits its follow-up, the message \<open>1\<close> is no name and no greeting, and the status
  and the stage of the lead are updated.
\<close>

theorem followup_not_rejected_counterexample:
  "\<not> stage_accepts (followup_lead ''asked_name'' ''1'') ''1'' ''1'' (Str ''asked_name'') \<and>
   \<not> is_greeting ''1'' \<and>
   stage_of (followup_lead ''asked_name'' ''1'') = Str ''asked_name'' \<and>
   action (handleMessage (Some (followup_lead ''asked_name'' ''1''))) = ''followup_interested'' \<and>
   updateFields (handleMessage (Some (followup_lead ''asked_name'' ''1''))) =
     Some [(''Status'', Str ''Hot Lead''),
           (''Conversation Stage'', Str ''interested_after_viewing''),
           (''AwaitingFollowUpResponse'', Bool False)]"
proof -
  have t: "trim (toLowerCase ''1'') = ''1''" "extract_name ''1'' = []"
    by code_simp+
  have l: "leadExists (followup_lead ''asked_name'' ''1'')"
    "message (followup_lead ''asked_name'' ''1'') = Str ''1''"
    "truthy (awaiting_followup_response (followup_lead ''asked_name'' ''1''))"
    by (simp_all add: followup_lead_def lead_at_def no_lead_def leadExists_def truthy_def)
  have s: "stage_of (followup_lead ''asked_name'' ''1'') = Str ''asked_name''"
    by (simp add: followup_lead_def lead_at_def no_lead_def stage_of_def or_else_def truthy_def)
  have a: "\<not> stage_accepts (followup_lead ''asked_name'' ''1'') ''1'' ''1'' (Str ''asked_name'')"
    by (simp add: stage_accepts_def t)
  have r: "handleMessage (Some (followup_lead ''asked_name'' ''1'')) =
      followup (followup_lead ''asked_name'' ''1'') ''1''"
    unfolding handleMessage_def handleMessage_try_def
    by (simp add: l or_else_message Let_def t)
  show ?thesis
    using a s by (simp add: r followup_def Let_def stage_field_def is_greeting_def)
qed

text \<open>
  What the validation of stage \<open>asked_buy_or_rent\<close> accepts in the variant with natural
  language is more than the configured types and their numbers: \<open>typeMapping\<close> is an
  object literal, so the message \<open>constructor\<close> finds \<open>Object.prototype.constructor\<close>, and
  the lead moves on to \<open>asked_name\<close> with that function as its interest. The variant with
  exact tokens looks the message up in an array and rejects it.
\<close>

lemma type_lookup_reaches_prototype:
  "stage_accepts (lead_at ''asked_buy_or_rent'' ''constructor'') ''constructor'' ''constructor''
     (Str ''asked_buy_or_rent'') \<and>
   updateFields (handleMessage (Some (lead_at ''asked_buy_or_rent'' ''constructor''))) =
     Some [(''Interest'', Native ''Object''), (''Conversation Stage'', Str ''asked_name'')] \<and>
   action (handleMessage2 (Some (lead_at ''asked_buy_or_rent'' ''constructor''))) = ''invalid''"
proof -
  define ts where "ts = split_on CHR '','' ''Buy, Rent''"
  have t: "trim (toLowerCase ''constructor'') = ''constructor''"
    "lookup_typeMapping (mapping_entries 1 (map trim ts)) ''constructor'' = Native ''Object''"
    "''constructor'' \<notin> set (map (\<lambda>t. toLowerCase (trim t)) ts)"
    unfolding ts_def by code_simp+
  have l: "leadExists (lead_at st m)" "message (lead_at st m) = Str m"
    "tenantTypes (lead_at st m) = Str ''Buy, Rent''"
    "\<not> truthy (awaiting_followup_response (lead_at st m))" for st m
    by (simp_all add: lead_at_def no_lead_def leadExists_def truthy_def tenantTypes_def
        or_else_def)
  have p: "split_types (tenantTypes (lead_at st m)) = Inr ts" for st m
    unfolding l split_types_def ts_def by simp
  have s: "stage_of (lead_at ''asked_buy_or_rent'' m) = Str ''asked_buy_or_rent''" for m
    by (simp add: lead_at_def no_lead_def stage_of_def or_else_def truthy_def)
  have g: "\<not> is_greeting (trim (toLowerCase ''constructor''))"
    "\<not> is_greeting2 (trim (toLowerCase ''constructor''))"
    by (simp_all add: t is_greeting_def is_greeting2_def)
  have a: "stage_accepts (lead_at ''asked_buy_or_rent'' ''constructor'') ''constructor''
      ''constructor'' (Str ''asked_buy_or_rent'')"
    unfolding stage_accepts_def p sum.case t
    by (simp add: truthy_def)
  have "stage_type (lead_at ''asked_buy_or_rent'' ''constructor'') ''constructor'' =
      Inr (reply ''update'' [(''Interest'', Native ''Object''), (stage_field, Str ''asked_name'')]
        reply_ask_name extras0)"
    unfolding stage_type_def p sum.case Let_def t
    by (simp add: truthy_def)
  then have b: "updateFields
      (handleMessage (Some (lead_at ''asked_buy_or_rent'' ''constructor''))) =
     Some [(''Interest'', Native ''Object''), (''Conversation Stage'', Str ''asked_name'')]"
    using existing_lead [of "lead_at ''asked_buy_or_rent'' ''constructor''" "''constructor''"] g
    by (simp add: l s t(1) handleMessage_def stages_def reply_def stage_field_def)
  have "stage_type2 (lead_at ''asked_buy_or_rent'' ''constructor'') ''constructor'' =
      Inr (invalid reply_choose_type2)"
    unfolding stage_type2_def p sum.case using t(3) by simp
  then have c: "action (handleMessage2 (Some (lead_at ''asked_buy_or_rent'' ''constructor''))) =
      ''invalid''"
    using existing_lead2 [of "lead_at ''asked_buy_or_rent'' ''constructor''" "''constructor''"] g
    by (simp add: l s t(1) handleMessage2_def stages2_def action_invalid)
  show ?thesis
    using a b c by simp
qed

section \<open>The budget\<close>















section \<open>The follow-up handler\<close>




section \<open>The number of bedrooms\<close>





section \<open>The first message of a new lead\<close>





section \<open>The greeting\<close>

text \<open>
  Claim C7. In both variants, an existing lead at any stage that sends \<open>hi\<close> gets the
  action \<open>update\<close>, and \<open>updateFields\<close> holds the one entry that sets the stage to
  \<open>asked_buy_or_rent\<close>. The tenant's list of property types is a string, or is unset.
\<close>

theorem greeting_resets_stage_only:
  assumes "leadExists inp" and "message inp = Str m" and "trim (toLowerCase m) = ''hi''"
    and "tenantTypes inp = Str ts"
  shows "action (handleMessage (Some inp)) = ''update'' \<and>
         updateFields (handleMessage (Some inp)) =
           Some [(''Conversation Stage'', Str ''asked_buy_or_rent'')] \<and>
         action (handleMessage2 (Some inp)) = ''update'' \<and>
         updateFields (handleMessage2 (Some inp)) =
           Some [(''Conversation Stage'', Str ''asked_buy_or_rent'')]"
  using assms
  by (simp add: handleMessage_def handleMessage_try_def handleMessage2_def
      handleMessage2_try_def or_else_message Let_def is_greeting_def is_greeting2_def
      greeting_def greeting2_def formatOptions_Str formatOptions2_Str reply_def
      stage_field_def)

theorem greeting_resets_stage_only_witness:
  "updateFields (handleMessage (Some (lead_at ''asked_budget'' ''Hi ''))) =
     Some [(''Conversation Stage'', Str ''asked_buy_or_rent'')] \<and>
   updateFields (handleMessage2 (Some (lead_at ''asked_budget'' ''Hi ''))) =
     Some [(''Conversation Stage'', Str ''asked_buy_or_rent'')]"
proof -
  have t: "trim (toLowerCase ''Hi '') = ''hi''"
    by code_simp
  show ?thesis
    using greeting_resets_stage_only [of "lead_at ''asked_budget'' ''Hi ''" "''Hi ''" "''Buy, Rent''"]
    by (simp add: lead_at_def no_lead_def leadExists_def t tenantTypes_def or_else_def
        truthy_def)
qed

section \<open>Stage transitions\<close>

lemma new_stage_invalid: "new_stage (invalid m) = None"
  by (simp add: new_stage_def invalid_def reply_def)

lemma new_stage_reply: "new_stage (reply a fs m x) = map_of fs stage_field"
  by (simp add: new_stage_def reply_def)

lemma new_stage_error: "new_stage error_response = None" "new_stage error_response2 = None"
  by (simp_all add: new_stage_def error_response_def error_response2_def)

lemmas new_stage_simps = new_stage_invalid new_stage_reply stage_field_def Let_def

lemma new_stage_type:
  "stage_type inp msg = Inr r \<Longrightarrow> new_stage r = Some s \<Longrightarrow> s = Str ''asked_name''"
  by (auto simp: stage_type_def new_stage_simps split: sum.splits if_splits)

lemma new_stage_type2:
  "stage_type2 inp msg = Inr r \<Longrightarrow> new_stage r = Some s \<Longrightarrow> s = Str ''asked_name''"
  by (auto simp: stage_type2_def new_stage_simps split: sum.splits if_splits)

lemma new_stage_name: "new_stage (stage_name msg) = Some s \<Longrightarrow> s = Str ''asked_budget''"
  by (auto simp: stage_name_def new_stage_simps split: if_splits)

lemma new_stage_budget:
  "new_stage (stage_budget inp msg) = Some s \<Longrightarrow> s = Str ''fetching_locations''"
  by (auto simp: stage_budget_def new_stage_simps split: if_splits)

lemma new_stage_location:
  "new_stage (stage_location inp msg) = Some s \<Longrightarrow> s = Str ''fetching_sizes''"
  by (auto simp: stage_location_def new_stage_simps split: if_splits)

lemma new_stage_size: "new_stage (stage_size inp msg) = Some s \<Longrightarrow> s = Str ''completed''"
  by (auto simp: stage_size_def new_stage_simps split: if_splits option.splits)

lemma new_stage_land_size:
  "new_stage (stage_land_size inp m msg) = Some s \<Longrightarrow> s = Str ''completed''"
  by (auto simp: stage_land_size_def new_stage_simps split: if_splits)

lemma new_stage_completed:
  "new_stage (stage_completed msg) = Some s \<Longrightarrow> s = Str ''awaiting_time_slot''"
  by (auto simp: stage_completed_def new_stage_simps split: if_splits option.splits)

lemma new_stage_time_slot:
  "new_stage (stage_time_slot msg) = Some s \<Longrightarrow> s = Str ''booking_confirmed''"
  by (auto simp: stage_time_slot_def new_stage_simps split: if_splits option.splits)

lemma new_stage_cancel: "new_stage cancel = Some (Str ''booking_cancelled'')"
  by (simp add: cancel_def new_stage_simps)

lemma new_stage_stages2:
  "new_stage (stage_name2 msg) = Some (Str ''asked_budget'')"
  "new_stage (stage_budget2 inp msg) = Some (Str ''fetching_locations'')"
  "new_stage (stage_location2 inp msg) = Some (Str ''fetching_sizes'')"
  "new_stage (stage_size2 inp msg) = Some (Str ''completed'')"
  "new_stage (stage_land_size2 inp msg) = Some (Str ''completed'')"
  "new_stage (stage_completed2 msg) = Some (Str ''awaiting_time_slot'')"
  "new_stage (stage_time_slot2 msg) = Some (Str ''booking_confirmed'')"
  by (simp_all add: stage_name2_def stage_budget2_def stage_location2_def stage_size2_def
      stage_land_size2_def stage_completed2_def stage_time_slot2_def new_stage_simps)

lemma forward_steps:
  "forward (Str ''asked_buy_or_rent'') (Str ''asked_name'')"
  "forward (Str ''asked_name'') (Str ''asked_budget'')"
  "forward (Str ''asked_budget'') (Str ''fetching_locations'')"
  "forward (Str ''asked_location'') (Str ''fetching_sizes'')"
  "forward (Str ''asked_size'') (Str ''completed'')"
  "forward (Str ''asked_land_size'') (Str ''completed'')"
  "forward (Str ''completed'') (Str ''awaiting_time_slot'')"
  "forward (Str ''awaiting_time_slot'') (Str ''booking_confirmed'')"
  "forward (Str ''booking_confirmed'') (Str ''booking_cancelled'')"
  by (simp_all add: forward_def stage_rank_def)

lemma stages_forward:
  assumes "stages inp m msg st = Inr r" and "new_stage r = Some s"
  shows "forward st s"
  using assms unfolding stages_def
  by (auto split: if_splits simp: forward_steps new_stage_invalid new_stage_cancel
      dest: new_stage_type new_stage_name new_stage_budget new_stage_location new_stage_size
        new_stage_land_size new_stage_completed new_stage_time_slot)

lemma stages2_forward:
  assumes "stages2 inp msg st = Inr r" and "new_stage r = Some s"
  shows "forward st s"
  using assms unfolding stages2_def
  by (auto split: if_splits simp: forward_steps new_stage_invalid new_stage_cancel
      new_stage_stages2 dest: new_stage_type2)

text \<open>
  Claim C8, amended. In both variants, for every existing lead and every text message,
  when \<open>updateFields\<close> holds an entry "Conversation Stage", the stage of the lead and the
  new stage are both in the sequence and the new one is strictly later, except on the
  greeting path and, in the variant that has it, on the follow-up path. The cancel path,
  from \<open>booking_confirmed\<close> to \<open>booking_cancelled\<close>, is a step forward and needs no
  exception.
\<close>

theorem stage_moves_forward:
  assumes "leadExists inp" and "message inp = Str m"
  shows "(\<not> (truthy (awaiting_followup_response inp) \<and>
              (trim (toLowerCase m) = ''1'' \<or> trim (toLowerCase m) = ''2'')) \<and>
          \<not> is_greeting (trim (toLowerCase m)) \<and>
          new_stage (handleMessage (Some inp)) = Some s \<longrightarrow>
            forward (stage_of inp) s) \<and>
         (\<not> is_greeting2 (trim (toLowerCase m)) \<and>
          new_stage (handleMessage2 (Some inp)) = Some s2 \<longrightarrow>
            forward (stage_of inp) s2)"
proof (intro conjI impI)
  assume a: "\<not> (truthy (awaiting_followup_response inp) \<and>
        (trim (toLowerCase m) = ''1'' \<or> trim (toLowerCase m) = ''2'')) \<and>
      \<not> is_greeting (trim (toLowerCase m)) \<and>
      new_stage (handleMessage (Some inp)) = Some s"
  then have t: "handleMessage_try (Some inp) =
      stages inp m (trim (toLowerCase m)) (stage_of inp)"
    using existing_lead [OF assms] by blast
  show "forward (stage_of inp) s"
  proof (cases "stages inp m (trim (toLowerCase m)) (stage_of inp)")
    case (Inl e)
    with t a show ?thesis
      by (simp add: handleMessage_def new_stage_error)
  next
    case (Inr r)
    with t a have "new_stage r = Some s"
      by (simp add: handleMessage_def)
    with Inr show ?thesis
      by (rule stages_forward)
  qed
next
  assume a: "\<not> is_greeting2 (trim (toLowerCase m)) \<and>
      new_stage (handleMessage2 (Some inp)) = Some s2"
  then have t: "handleMessage2_try (Some inp) = stages2 inp (trim (toLowerCase m)) (stage_of inp)"
    using existing_lead2 [OF assms] by blast
  show "forward (stage_of inp) s2"
  proof (cases "stages2 inp (trim (toLowerCase m)) (stage_of inp)")
    case (Inl e)
    with t a show ?thesis
      by (simp add: handleMessage2_def new_stage_error)
  next
    case (Inr r)
    with t a have "new_stage r = Some s2"
      by (simp add: handleMessage2_def)
    with Inr show ?thesis
      by (rule stages2_forward)
  qed
qed

theorem stage_moves_forward_witness:
  "new_stage (handleMessage (Some (lead_at ''completed'' ''2''))) =
     Some (Str ''awaiting_time_slot'') \<and>
   forward (stage_of (lead_at ''completed'' ''2'')) (Str ''awaiting_time_slot'') \<and>
   new_stage (handleMessage2 (Some (lead_at ''awaiting_time_slot'' ''2''))) =
     Some (Str ''booking_confirmed'') \<and>
   forward (stage_of (lead_at ''awaiting_time_slot'' ''2'')) (Str ''booking_confirmed'')"
proof -
  have t: "trim (toLowerCase ''2'') = ''2''" "pick_number ''property'' ''2'' = Some 2"
    "all_digits ''2''"
    by code_simp+
  have l: "leadExists (lead_at st m)" "message (lead_at st m) = Str m"
    "\<not> truthy (awaiting_followup_response (lead_at st m))" for st m
    by (simp_all add: lead_at_def no_lead_def leadExists_def truthy_def)
  have s: "stage_of (lead_at ''completed'' m) = Str ''completed''"
    "stage_of (lead_at ''awaiting_time_slot'' m) = Str ''awaiting_time_slot''" for m
    by (simp_all add: lead_at_def no_lead_def stage_of_def or_else_def truthy_def)
  have g: "\<not> is_greeting ''2''" "\<not> is_greeting2 ''2''"
    by (simp_all add: is_greeting_def is_greeting2_def)
  have a: "new_stage (handleMessage (Some (lead_at ''completed'' ''2''))) =
      Some (Str ''awaiting_time_slot'')"
    using existing_lead [of "lead_at ''completed'' ''2''" "''2''"]
    by (simp add: l t s g handleMessage_def stages_def stage_completed_def new_stage_reply
        stage_field_def)
  have b: "new_stage (handleMessage2 (Some (lead_at ''awaiting_time_slot'' ''2''))) =
      Some (Str ''booking_confirmed'')"
    using existing_lead2 [of "lead_at ''awaiting_time_slot'' ''2''" "''2''"]
    by (simp add: l t s g handleMessage2_def stages2_def new_stage_stages2)
  show ?thesis
    using stage_moves_forward [OF l(1,2), of "''completed''" "''2''" "Str ''awaiting_time_slot''"]
      stage_moves_forward [OF l(1,2), of "''awaiting_time_slot''" "''2''" _
        "Str ''booking_confirmed''"]
      a b
    by (simp add: l t g)
qed

text \<open>
  The claim as it stands fails on the follow-up path: the answer \<open>1\<close> of a lead at stage
  \<open>completed\<close> is no greeting and no cancellation, and sets the stage
  \<open>interested_after_viewing\<close>, which is not in the sequence.
\<close>

theorem followup_stage_counterexample:
  "new_stage (handleMessage (Some (followup_lead ''completed'' ''1''))) =
     Some (Str ''interested_after_viewing'') \<and>
   \<not> is_greeting ''1'' \<and>
   stage_of (followup_lead ''completed'' ''1'') = Str ''completed'' \<and>
   stage_rank (Str ''interested_after_viewing'') = None \<and>
   \<not> forward (Str ''completed'') (Str ''interested_after_viewing'')"
proof -
  have t: "trim (toLowerCase ''1'') = ''1''"
    by code_simp
  have l: "leadExists (followup_lead ''completed'' ''1'')"
    "message (followup_lead ''completed'' ''1'') = Str ''1''"
    "truthy (awaiting_followup_response (followup_lead ''completed'' ''1''))"
    by (simp_all add: followup_lead_def lead_at_def no_lead_def leadExists_def truthy_def)
  have a: "new_stage (handleMessage (Some (followup_lead ''completed'' ''1''))) =
      Some (Str ''interested_after_viewing'')"
    unfolding handleMessage_def handleMessage_try_def
    by (simp add: l or_else_message Let_def t followup_def new_stage_def stage_field_def)
  have s: "stage_of (followup_lead ''completed'' ''1'') = Str ''completed''"
    by (simp add: followup_lead_def lead_at_def no_lead_def stage_of_def or_else_def truthy_def)
  show ?thesis
    using a s by (simp add: is_greeting_def stage_rank_def forward_def)
qed

section \<open>A selection of number zero\<close>

lemma completed_zero:
  assumes "leadExists inp" and "message inp = Str m" and "lead_stage inp = Str ''completed''"
    and "trim (toLowerCase m) = msg" and "msg = ''0'' \<or> msg = ''property 0''"
  shows "handleMessage (Some inp) = invalid reply_property_invalid"
proof -
  have p: "pick_number ''property'' ''0'' = Some 0"
    "pick_number ''property'' ''property 0'' = Some 0"
    by code_simp+
  have g: "\<not> is_greeting msg" "msg \<noteq> ''1''" "msg \<noteq> ''2''"
    using assms(5) by (auto simp: is_greeting_def)
  have a: "stage_completed msg = invalid reply_property_invalid"
    using assms(5) by (auto simp: stage_completed_def p)
  have s: "stage_of inp = Str ''completed''"
    using assms(3) by (rule stage_of_Str)
  show ?thesis
    unfolding handleMessage_def handleMessage_try_def
    by (simp add: assms(1,2,4) or_else_message Let_def stages_def g a s)
qed

lemma time_slot_zero:
  assumes "leadExists inp" and "message inp = Str m"
    and "lead_stage inp = Str ''awaiting_time_slot''"
    and "trim (toLowerCase m) = msg" and "msg = ''0'' \<or> msg = ''slot 0''"
  shows "handleMessage (Some inp) = invalid reply_slot_invalid"
proof -
  have p: "pick_number ''slot'' ''0'' = Some 0" "pick_number ''slot'' ''slot 0'' = Some 0"
    by code_simp+
  have g: "\<not> is_greeting msg" "msg \<noteq> ''1''" "msg \<noteq> ''2''"
    using assms(5) by (auto simp: is_greeting_def)
  have a: "stage_time_slot msg = invalid reply_slot_invalid"
    using assms(5) by (auto simp: stage_time_slot_def p)
  have s: "stage_of inp = Str ''awaiting_time_slot''"
    using assms(3) by (rule stage_of_Str)
  show ?thesis
    unfolding handleMessage_def handleMessage_try_def
    by (simp add: assms(1,2,4) or_else_message Let_def stages_def g a s)
qed

text \<open>
  Claim C9. In the variant with natural language, an existing lead at stage \<open>completed\<close>
  that sends \<open>0\<close> or \<open>property 0\<close>, and one at stage \<open>awaiting_time_slot\<close> that sends \<open>0\<close>
  or \<open>slot 0\<close> (in any case, with white space around), gets the action \<open>invalid\<close> and an
  empty \<open>updateFields\<close>: the number zero counts as no selection.
\<close>

theorem zero_selection_rejected:
  assumes "leadExists inp" and "message inp = Str m"
  shows "(lead_stage inp = Str ''completed'' \<and>
          (trim (toLowerCase m) = ''0'' \<or> trim (toLowerCase m) = ''property 0'') \<longrightarrow>
            action (handleMessage (Some inp)) = ''invalid'' \<and>
            updateFields (handleMessage (Some inp)) = Some []) \<and>
         (lead_stage inp = Str ''awaiting_time_slot'' \<and>
          (trim (toLowerCase m) = ''0'' \<or> trim (toLowerCase m) = ''slot 0'') \<longrightarrow>
            action (handleMessage (Some inp)) = ''invalid'' \<and>
            updateFields (handleMessage (Some inp)) = Some [])"
  using completed_zero [OF assms] time_slot_zero [OF assms]
  by (simp add: action_invalid updateFields_invalid)

theorem zero_selection_rejected_witness:
  "action (handleMessage (Some (lead_at ''completed'' ''Property 0''))) = ''invalid'' \<and>
   updateFields (handleMessage (Some (lead_at ''completed'' ''Property 0''))) = Some [] \<and>
   action (handleMessage (Some (lead_at ''awaiting_time_slot'' ''0''))) = ''invalid'' \<and>
   updateFields (handleMessage (Some (lead_at ''awaiting_time_slot'' ''0''))) = Some []"
proof -
  have t: "trim (toLowerCase ''Property 0'') = ''property 0''" "trim (toLowerCase ''0'') = ''0''"
    by code_simp+
  show ?thesis
    using zero_selection_rejected [of "lead_at ''completed'' ''Property 0''" "''Property 0''"]
      zero_selection_rejected [of "lead_at ''awaiting_time_slot'' ''0''" "''0''"]
    by (simp add: lead_at_def no_lead_def leadExists_def t)
qed

section \<open>The free slots\<close>

declare hours_loop.simps [simp del] days_loop.simps [simp del]









end
